theory Spec2Isabelle
  imports Complex_Main
begin

section \<open>Data model\<close>

text \<open>
  The persistent state of the restaurant system is a relational database reached through
  Prisma. Each database table is a list of rows (a \<^theory_text>\<open>record\<close> per row);
  identifiers are strings (\<open>'table-1'\<close>, \<open>'item-5'\<close> in the seed script). JavaScript numbers
  (prices, amounts, quantities of a request) are idealised as rationals: the arithmetic
  of the handlers is modelled exactly, without the rounding of IEEE doubles. Only the
  columns that the handlers below read or write are kept.

  The handlers and where they are in the sources:
  \<^item> \<open>createOrder\<close>: POST of \<open>src/app/api/orders/route.ts\<close>; \<open>createOrder_v2\<close>: the
    version of the same handler in \<open>unnamed/part_006\<close>;
  \<^item> \<open>updateOrderStatus\<close>, \<open>addOrderItem\<close>: PUT and POST of
    \<open>src/app/api/orders/[id]/route.ts\<close>;
  \<^item> \<open>updateOrderItemStatus\<close>, \<open>removeOrderItem\<close>: PUT and DELETE of
    \<open>src/app/api/orders/[id]/items/[itemId]/route.ts\<close>;
  \<^item> \<open>applyDiscount\<close>, \<open>removeDiscount\<close>: POST and DELETE of the discount route, the
    last part of \<open>src/app/api/staff/[id]/route.ts\<close>;
  \<^item> \<open>mergeTables\<close>: POST of \<open>src/app/api/tables/merge/route.ts\<close>; \<open>unmergeTables\<close>:
    POST of \<open>unnamed/part_008\<close>; \<open>updateTable\<close>: PUT of \<open>src/app/api/tables/route.ts\<close>;
  \<^item> \<open>processPayment\<close>: POST of \<open>unnamed/part_007\<close>;
  \<^item> the schemas (\<open>createOrderSchema\<close>, \<open>createPaymentSchema\<close>, ...): \<open>unnamed/part_000\<close>.
\<close>

type_synonym ident = string

datatype table_status = VACANT | OCCUPIED | RESERVED | ORDER_PENDING

datatype order_status = CREATED | PREPARING | READY | SERVED | PAID | CANCELLED

datatype item_status = ITEM_PENDING | ITEM_PREPARING | ITEM_READY | ITEM_SERVED

datatype payment_method = CASH | CARD

datatype role = OWNER | SUPERVISOR | FLOOR_STAFF | KITCHEN_STAFF

record table_row =
  table_id :: ident
  table_status :: table_status
  mergedWithId :: "ident option"

record menu_item_row =
  menu_id :: ident
  menu_price :: rat
  printStation :: string

record order_row =
  order_id :: ident
  order_tableId :: "ident option"
  order_status :: order_status
  totalAmount :: rat
  discountType :: "string option"
  discountValue :: "rat option"
  discountReason :: "string option"
  discountAppliedBy :: "ident option"
  createdById :: ident

record order_item_row =
  item_id :: ident
  item_orderId :: ident
  item_menuItemId :: ident
  item_quantity :: int
  item_price :: rat
  item_status :: item_status

record payment_row =
  payment_id :: ident
  payment_orderId :: ident
  payment_amount :: rat
  payment_method :: payment_method

record db =
  tables :: "table_row list"
  menuItems :: "menu_item_row list"
  orders :: "order_row list"
  orderItems :: "order_item_row list"
  payments :: "payment_row list"

text \<open>The session returned by \<open>auth()\<close>: no session, or a user with an id and a role.\<close>

record session_user =
  user_id :: ident
  user_role :: role

type_synonym session = "session_user option"

text \<open>
  The error responses of the handlers, named by their HTTP status:
  \<open>Unauthorized401\<close> and \<open>Forbidden403\<close> are the role gates,
  \<open>Invalid400\<close> is a request rejected by its zod schema (the spec's InvalidInput),
  \<open>Missing400\<close> a request rejected by a hand-written required-field test,
  \<open>NotFound404\<close> a row that was looked up and not found (the spec's InvalidReference),
  \<open>AlreadyPaid400\<close> is \<open>'Order already paid'\<close>,
  \<open>NotPending400\<close> is the refusal to delete an item that left PENDING, and
  \<open>Failed500\<close> is the \<open>catch\<close> block of a handler: any exception thrown by the
  persistence layer ends there.
\<close>

datatype error =
    Unauthorized401
  | Forbidden403
  | Invalid400
  | Missing400
  | NotFound404
  | AlreadyPaid400
  | NotPending400
  | Failed500

section \<open>The persistence layer\<close>

text \<open>
  \<open>findUnique\<close> returns the row with the given key, if any. \<open>update\<close> changes the row
  with the given key and returns it, and throws when there is none (\<open>None\<close> here).
  \<open>updateMany\<close> changes every row that satisfies the filter and never throws.
  \<open>$transaction\<close> runs a list of writes in order and rolls all of them back when one
  throws.
\<close>

definition prisma_findUnique :: "('r \<Rightarrow> ident) \<Rightarrow> ident \<Rightarrow> 'r list \<Rightarrow> 'r option" where
  "prisma_findUnique key k rows = find (\<lambda>r. key r = k) rows"

definition prisma_updateMany :: "('r \<Rightarrow> bool) \<Rightarrow> ('r \<Rightarrow> 'r) \<Rightarrow> 'r list \<Rightarrow> 'r list" where
  "prisma_updateMany P f rows = map (\<lambda>r. if P r then f r else r) rows"

definition prisma_update ::
  "('r \<Rightarrow> ident) \<Rightarrow> ident \<Rightarrow> ('r \<Rightarrow> 'r) \<Rightarrow> 'r list \<Rightarrow> ('r \<times> 'r list) option" where
  "prisma_update key k f rows =
     (case prisma_findUnique key k rows of
        None \<Rightarrow> None
      | Some r \<Rightarrow> Some (f r, prisma_updateMany (\<lambda>r. key r = k) f rows))"

fun transaction :: "(db \<Rightarrow> db option) list \<Rightarrow> db \<Rightarrow> db option" where
  "transaction [] s = Some s"
| "transaction (w # ws) s = (case w s of None \<Rightarrow> None | Some s' \<Rightarrow> transaction ws s')"

text \<open>\<open>prisma.table.update\<close> as a write on the whole database, for use in a transaction.\<close>

definition table_update :: "ident \<Rightarrow> (table_row \<Rightarrow> table_row) \<Rightarrow> db \<Rightarrow> db option" where
  "table_update k f s =
     (case prisma_update table_id k f (tables s) of
        None \<Rightarrow> None
      | Some (r, ts) \<Rightarrow> Some (s\<lparr>tables := ts\<rparr>))"

text \<open>\<open>session?.user\<close> and \<open>['OWNER', ...].includes(session.user.role)\<close>.\<close>

definition has_user :: "session \<Rightarrow> bool" where
  "has_user sess = (sess \<noteq> None)"

definition has_role :: "session \<Rightarrow> role list \<Rightarrow> bool" where
  "has_role sess rs = (case sess of None \<Rightarrow> False | Some u \<Rightarrow> user_role u \<in> set rs)"

definition session_user_id :: "session \<Rightarrow> ident" where
  "session_user_id sess = (case sess of None \<Rightarrow> [] | Some u \<Rightarrow> user_id u)"

text \<open>
  JavaScript truthiness of a nullable string: \<open>null\<close>, \<open>undefined\<close> and \<open>''\<close> are falsy.
  \<open>truthy_string\<close> gives the string when it is truthy.
\<close>

definition truthy_string :: "string option \<Rightarrow> string option" where
  "truthy_string x = (case x of None \<Rightarrow> None | Some v \<Rightarrow> if v = [] then None else Some v)"

section \<open>Table registry\<close>

text \<open>\<open>mergeTablesSchema\<close>: an array of at least 2 strings.\<close>

definition mergeTablesSchema :: "string list \<Rightarrow> string list option" where
  "mergeTablesSchema tableIds = (if 2 \<le> length tableIds then Some tableIds else None)"

text \<open>
  The POST handler of the merge route. It returns the rows of the given tables. The
  empty list cannot pass the schema; \<open>tableIds[0]\<close> would be \<open>undefined\<close> there and the
  update would throw.
\<close>

definition mergeTables :: "session \<Rightarrow> string list \<Rightarrow> db \<Rightarrow> (error + table_row list) \<times> db" where
  "mergeTables sess body s =
     (if \<not> has_role sess [OWNER, SUPERVISOR, FLOOR_STAFF] then (Inl Unauthorized401, s)
      else case mergeTablesSchema body of
        None \<Rightarrow> (Inl Invalid400, s)
      | Some tableIds \<Rightarrow>
         (case tableIds of
            [] \<Rightarrow> (Inl Failed500, s)
          | primaryTableId # otherTableIds \<Rightarrow>
             (case transaction
                     (table_update primaryTableId (\<lambda>r. r\<lparr>table_status := OCCUPIED\<rparr>) #
                      map (\<lambda>i. table_update i
                                 (\<lambda>r. r\<lparr>mergedWithId := Some primaryTableId,
                                         table_status := OCCUPIED\<rparr>))
                          otherTableIds) s of
                None \<Rightarrow> (Inl Failed500, s)
              | Some s' \<Rightarrow> (Inr (filter (\<lambda>r. table_id r \<in> set tableIds) (tables s')), s'))))"

text \<open>
  The POST handler of the unmerge route; \<open>tableId\<close> is the field of the body, \<open>None\<close>
  when it is absent.
\<close>

definition unmergeTables :: "session \<Rightarrow> string option \<Rightarrow> db \<Rightarrow> (error + unit) \<times> db" where
  "unmergeTables sess tableId s =
     (if \<not> has_role sess [OWNER, SUPERVISOR, FLOOR_STAFF] then (Inl Unauthorized401, s)
      else case truthy_string tableId of
        None \<Rightarrow> (Inl Missing400, s)
      | Some t \<Rightarrow>
         (let mergedTables = filter (\<lambda>r. mergedWithId r = Some t) (tables s)
          in case transaction
                    (map (\<lambda>table. table_update (table_id table)
                                 (\<lambda>r. r\<lparr>mergedWithId := None, table_status := VACANT\<rparr>))
                         mergedTables
                     @ [table_update t (\<lambda>r. r\<lparr>table_status := VACANT\<rparr>)]) s of
               None \<Rightarrow> (Inl Failed500, s)
             | Some s' \<Rightarrow> (Inr (), s')))"

text \<open>
  The body of a table update: \<open>id\<close>, and the rest, which \<open>updateTableSchema\<close> validates.
  \<open>status\<close> is optional; \<open>mergedWithId\<close> is optional and nullable, so it is absent
  (\<open>None\<close>), \<open>null\<close> (\<open>Some None\<close>) or a string.
\<close>

record table_update_request =
  treq_id :: "string option"
  treq_status :: "string option"
  treq_mergedWithId :: "string option option"

definition parse_table_status :: "string \<Rightarrow> table_status option" where
  "parse_table_status x =
     (if x = ''VACANT'' then Some VACANT
      else if x = ''OCCUPIED'' then Some OCCUPIED
      else if x = ''RESERVED'' then Some RESERVED
      else if x = ''ORDER_PENDING'' then Some ORDER_PENDING
      else None)"

definition updateTableSchema ::
  "table_update_request \<Rightarrow> (table_status option \<times> string option option) option" where
  "updateTableSchema body =
     (case treq_status body of
        None \<Rightarrow> Some (None, treq_mergedWithId body)
      | Some x \<Rightarrow>
         (case parse_table_status x of
            None \<Rightarrow> None
          | Some st \<Rightarrow> Some (Some st, treq_mergedWithId body)))"

text \<open>The write of \<open>validation.data\<close>: only the fields that are present are set.\<close>

definition table_data :: "table_status option \<times> string option option \<Rightarrow> table_row \<Rightarrow> table_row" where
  "table_data d r =
     (let r1 = (case fst d of None \<Rightarrow> r | Some st \<Rightarrow> r\<lparr>table_status := st\<rparr>)
      in case snd d of None \<Rightarrow> r1 | Some m \<Rightarrow> r1\<lparr>mergedWithId := m\<rparr>)"

text \<open>
  The PUT handler of the tables route. The schema file of the database is not among the
  sources, so whether its relations are enforced as foreign keys is the parameter
  \<open>fk\<close>: when it holds, a write whose reference names no row throws.
\<close>

definition updateTable ::
  "bool \<Rightarrow> session \<Rightarrow> table_update_request \<Rightarrow> db \<Rightarrow> (error + table_row) \<times> db" where
  "updateTable fk sess body s =
     (if \<not> has_role sess [OWNER, SUPERVISOR, FLOOR_STAFF] then (Inl Unauthorized401, s)
      else case truthy_string (treq_id body) of
        None \<Rightarrow> (Inl Missing400, s)
      | Some i \<Rightarrow>
         (case updateTableSchema body of
            None \<Rightarrow> (Inl Invalid400, s)
          | Some d \<Rightarrow>
             (if fk \<and> (case snd d of Some (Some m) \<Rightarrow> m \<notin> table_id ` set (tables s) | _ \<Rightarrow> False)
              then (Inl Failed500, s)
              else case prisma_update table_id i (table_data d) (tables s) of
                     None \<Rightarrow> (Inl Failed500, s)
                   | Some (r, ts) \<Rightarrow> (Inr r, s\<lparr>tables := ts\<rparr>))))"

section \<open>Payment settlement\<close>

text \<open>The body of a payment request, before validation.\<close>

record payment_request =
  preq_orderId :: string
  preq_amount :: rat
  preq_method :: string

definition parse_payment_method :: "string \<Rightarrow> payment_method option" where
  "parse_payment_method m =
     (if m = ''CASH'' then Some CASH else if m = ''CARD'' then Some CARD else None)"

text \<open>
  \<open>createPaymentSchema\<close>: \<open>orderId\<close> a string of length at least 1, \<open>amount\<close> a positive
  number, \<open>method\<close> one of \<open>CASH\<close>, \<open>CARD\<close>.
\<close>

definition createPaymentSchema :: "payment_request \<Rightarrow> (ident \<times> rat \<times> payment_method) option" where
  "createPaymentSchema body =
     (if 1 \<le> length (preq_orderId body) \<and> 0 < preq_amount body
      then (case parse_payment_method (preq_method body) of
              None \<Rightarrow> None
            | Some m \<Rightarrow> Some (preq_orderId body, preq_amount body, m))
      else None)"

text \<open>
  The POST handler of the payments route. \<open>pid\<close> is the identifier that the persistence
  layer draws for the new payment row. The four writes are separate statements (no
  transaction), so an exception in a later one leaves the earlier ones in place.
\<close>

definition processPayment ::
  "ident \<Rightarrow> session \<Rightarrow> payment_request \<Rightarrow> db \<Rightarrow> (error + payment_row) \<times> db" where
  "processPayment pid sess body s =
     (if \<not> has_role sess [OWNER, SUPERVISOR, FLOOR_STAFF] then (Inl Unauthorized401, s)
      else case createPaymentSchema body of
        None \<Rightarrow> (Inl Invalid400, s)
      | Some (orderId, amount, method) \<Rightarrow>
         (case prisma_findUnique order_id orderId (orders s) of
            None \<Rightarrow> (Inl NotFound404, s)
          | Some order \<Rightarrow>
             (case prisma_findUnique payment_orderId orderId (payments s) of
                Some p \<Rightarrow> (Inl AlreadyPaid400, s)
              | None \<Rightarrow>
                 (let payment = \<lparr>payment_id = pid, payment_orderId = orderId,
                                 payment_amount = amount, payment_method = method\<rparr>;
                      s1 = s\<lparr>payments := payments s @ [payment]\<rparr>
                  in case prisma_update order_id orderId (\<lambda>r. r\<lparr>order_status := PAID\<rparr>) (orders s1) of
                       None \<Rightarrow> (Inl Failed500, s1)
                     | Some (r, os) \<Rightarrow>
                        (let s2 = s1\<lparr>orders := os\<rparr>
                         in case truthy_string (order_tableId order) of
                              None \<Rightarrow> (Inr payment, s2)
                            | Some t \<Rightarrow>
                               (case prisma_update table_id t
                                       (\<lambda>r. r\<lparr>table_status := VACANT\<rparr>) (tables s2) of
                                  None \<Rightarrow> (Inl Failed500, s2)
                                | Some (r, ts) \<Rightarrow>
                                   (Inr payment,
                                    s2\<lparr>tables := prisma_updateMany
                                          (\<lambda>r. mergedWithId r = Some t)
                                          (\<lambda>r. r\<lparr>mergedWithId := None, table_status := VACANT\<rparr>)
                                          ts\<rparr>)))))))"

section \<open>Order lifecycle\<close>

text \<open>
  The items of an order (the relation \<open>items\<close> that \<open>include: { items: true }\<close> loads),
  and the sum that every handler recomputes from them:
  \<open>items.reduce((sum, item) => sum + item.price * item.quantity, 0)\<close>.
\<close>

definition order_items :: "db \<Rightarrow> ident \<Rightarrow> order_item_row list" where
  "order_items s oid = filter (\<lambda>i. item_orderId i = oid) (orderItems s)"

definition items_subtotal :: "order_item_row list \<Rightarrow> rat" where
  "items_subtotal items =
     foldl (\<lambda>sum item. sum + item_price item * of_int (item_quantity item)) 0 items"

text \<open>
  The total that is stored for an order, and the subtotal of the items it has now.
\<close>

definition stored_total :: "db \<Rightarrow> ident \<Rightarrow> rat option" where
  "stored_total s oid = map_option totalAmount (prisma_findUnique order_id oid (orders s))"

definition order_subtotal :: "db \<Rightarrow> ident \<Rightarrow> rat" where
  "order_subtotal s oid = items_subtotal (order_items s oid)"

text \<open>\<open>z.number().int().positive()\<close> on a JavaScript number.\<close>

definition positive_int :: "rat \<Rightarrow> bool" where
  "positive_int q = (of_int \<lfloor>q\<rfloor> = q \<and> 0 < q)"

record order_item_request =
  ireq_menuItemId :: string
  ireq_quantity :: rat

record order_request =
  oreq_tableId :: string
  oreq_items :: "order_item_request list"

text \<open>
  \<open>addOrderItemSchema\<close> and \<open>createOrderSchema\<close>. The optional notes and allergy tags of a
  request are copied to the rows unchanged and are left out.
\<close>

definition addOrderItemSchema :: "order_item_request \<Rightarrow> (ident \<times> rat) option" where
  "addOrderItemSchema body =
     (if 1 \<le> length (ireq_menuItemId body) \<and> positive_int (ireq_quantity body)
      then Some (ireq_menuItemId body, ireq_quantity body) else None)"

definition createOrderSchema :: "order_request \<Rightarrow> (ident \<times> order_item_request list) option" where
  "createOrderSchema body =
     (if 1 \<le> length (oreq_tableId body)
         \<and> list_all (\<lambda>item. 1 \<le> length (ireq_menuItemId item) \<and> positive_int (ireq_quantity item))
              (oreq_items body)
         \<and> 1 \<le> length (oreq_items body)
      then Some (oreq_tableId body, oreq_items body) else None)"

text \<open>
  \<open>menuItemPrices\<close> of the create handler: a \<open>Map\<close> built from the menu rows that
  \<open>findMany\<close> returned (a later pair overwrites an earlier one), read with
  \<open>menuItemPrices.get(id) || 0\<close>.
\<close>

definition menuItemPrices :: "db \<Rightarrow> ident list \<Rightarrow> ident \<Rightarrow> rat" where
  "menuItemPrices s menuItemIds i =
     (case map_of (rev (map (\<lambda>m. (menu_id m, menu_price m))
                         (filter (\<lambda>m. menu_id m \<in> set menuItemIds) (menuItems s)))) i of
        None \<Rightarrow> 0
      | Some p \<Rightarrow> p)"

text \<open>
  The POST handler of the orders route. \<open>cuid 0\<close> is the identifier drawn for the order
  and \<open>cuid (Suc k)\<close> the one drawn for its \<open>k\<close>-th item. A new order is \<open>CREATED\<close> and a
  new item \<open>PENDING\<close> (the column defaults). The order and its items are one nested
  write; with \<open>fk\<close> it throws when the table or a menu item does not exist. The update of
  the table is a second, separate write.
\<close>

definition createOrder ::
  "bool \<Rightarrow> (nat \<Rightarrow> ident) \<Rightarrow> session \<Rightarrow> order_request \<Rightarrow> db
     \<Rightarrow> (error + order_row \<times> order_item_row list) \<times> db" where
  "createOrder fk cuid sess body s =
     (if \<not> has_role sess [OWNER, SUPERVISOR, FLOOR_STAFF] then (Inl Unauthorized401, s)
      else case createOrderSchema body of
        None \<Rightarrow> (Inl Invalid400, s)
      | Some (tableId, items) \<Rightarrow>
         (let menuItemIds = map ireq_menuItemId items;
              price = menuItemPrices s menuItemIds;
              total = foldl (\<lambda>sum item. sum + price (ireq_menuItemId item) * ireq_quantity item)
                        0 items
          in if fk \<and> (tableId \<notin> table_id ` set (tables s)
                       \<or> \<not> set menuItemIds \<subseteq> menu_id ` set (menuItems s))
             then (Inl Failed500, s)
             else
               (let order = \<lparr>order_id = cuid 0, order_tableId = Some tableId,
                              order_status = CREATED, totalAmount = total,
                              discountType = None, discountValue = None,
                              discountReason = None, discountAppliedBy = None,
                              createdById = session_user_id sess\<rparr>;
                    created = map (\<lambda>(k, item).
                                \<lparr>item_id = cuid (Suc k), item_orderId = cuid 0,
                                 item_menuItemId = ireq_menuItemId item,
                                 item_quantity = \<lfloor>ireq_quantity item\<rfloor>,
                                 item_price = price (ireq_menuItemId item),
                                 item_status = ITEM_PENDING\<rparr>)
                              (enumerate 0 items);
                    s1 = s\<lparr>orders := orders s @ [order],
                           orderItems := orderItems s @ created\<rparr>
                in case prisma_update table_id tableId
                          (\<lambda>r. r\<lparr>table_status := OCCUPIED\<rparr>) (tables s1) of
                     None \<Rightarrow> (Inl Failed500, s1)
                   | Some (r, ts) \<Rightarrow> (Inr (order, created), s1\<lparr>tables := ts\<rparr>))))"

text \<open>
  A second version of the same POST handler is among the sources; it knows order types
  and surcharges. Its schema is not among the sources, so the validated request is the
  input here and \<open>valid\<close> says whether the schema accepted it. Of an order it writes the
  columns \<open>orderType\<close> and \<open>surcharges\<close> as well, which no handler reads and which are
  left out. \<open>surcharges || 0\<close> and \<open>tableId || undefined\<close> are as written; a menu item
  that was not found has no print station, so it needs preparation.
\<close>

record order_request_v2 =
  oreq2_tableId :: "string option"
  oreq2_orderType :: "string option"
  oreq2_surcharges :: "rat option"
  oreq2_items :: "order_item_request list"

definition menuItemMap :: "db \<Rightarrow> ident list \<Rightarrow> ident \<Rightarrow> menu_item_row option" where
  "menuItemMap s menuItemIds =
     map_of (rev (map (\<lambda>m. (menu_id m, m))
                    (filter (\<lambda>m. menu_id m \<in> set menuItemIds) (menuItems s))))"

definition createOrder_v2 ::
  "bool \<Rightarrow> (nat \<Rightarrow> ident) \<Rightarrow> session \<Rightarrow> bool \<Rightarrow> order_request_v2 \<Rightarrow> db
     \<Rightarrow> (error + order_row \<times> order_item_row list) \<times> db" where
  "createOrder_v2 fk cuid sess valid body s =
     (if \<not> has_role sess [OWNER, SUPERVISOR, FLOOR_STAFF] then (Inl Unauthorized401, s)
      else if \<not> valid then (Inl Invalid400, s)
      else
        (let items = oreq2_items body;
             menuItemIds = map ireq_menuItemId items;
             menuItem = menuItemMap s menuItemIds;
             price = (\<lambda>i. case menuItem i of None \<Rightarrow> 0 | Some m \<Rightarrow> menu_price m);
             total = foldl (\<lambda>sum item. sum + price (ireq_menuItemId item) * ireq_quantity item)
                       0 items
                     + (case oreq2_surcharges body of None \<Rightarrow> 0 | Some x \<Rightarrow> x);
             needsPreparation =
               list_ex (\<lambda>item. map_option printStation (menuItem (ireq_menuItemId item))
                               \<noteq> Some ''NO_PRINT'') items;
             initialStatus = (if oreq2_orderType body = Some ''QUICK_SALE'' \<and> \<not> needsPreparation
                              then READY else CREATED)
         in if fk \<and> ((case truthy_string (oreq2_tableId body) of
                          None \<Rightarrow> False
                        | Some t \<Rightarrow> t \<notin> table_id ` set (tables s))
                       \<or> \<not> set menuItemIds \<subseteq> menu_id ` set (menuItems s))
            then (Inl Failed500, s)
            else
              (let order = \<lparr>order_id = cuid 0,
                             order_tableId = truthy_string (oreq2_tableId body),
                             order_status = initialStatus, totalAmount = total,
                             discountType = None, discountValue = None,
                             discountReason = None, discountAppliedBy = None,
                             createdById = session_user_id sess\<rparr>;
                   created = map (\<lambda>(k, item).
                               \<lparr>item_id = cuid (Suc k), item_orderId = cuid 0,
                                item_menuItemId = ireq_menuItemId item,
                                item_quantity = \<lfloor>ireq_quantity item\<rfloor>,
                                item_price = price (ireq_menuItemId item),
                                item_status =
                                  (if oreq2_orderType body = Some ''QUICK_SALE''
                                      \<and> map_option printStation (menuItem (ireq_menuItemId item))
                                          = Some ''NO_PRINT''
                                   then ITEM_SERVED else ITEM_PENDING)\<rparr>)
                             (enumerate 0 items);
                   s1 = s\<lparr>orders := orders s @ [order],
                          orderItems := orderItems s @ created\<rparr>
               in case (truthy_string (oreq2_tableId body),
                        oreq2_orderType body = Some ''DINE_IN'') of
                    (Some t, True) \<Rightarrow>
                      (case prisma_update table_id t
                              (\<lambda>r. r\<lparr>table_status := OCCUPIED\<rparr>) (tables s1) of
                         None \<Rightarrow> (Inl Failed500, s1)
                       | Some (r, ts) \<Rightarrow> (Inr (order, created), s1\<lparr>tables := ts\<rparr>))
                  | _ \<Rightarrow> (Inr (order, created), s1))))"

text \<open>
  The POST handler of the route of one order: add an item. \<open>iid\<close> is the identifier drawn
  for the new item and \<open>oid\<close> the order id of the URL (\<open>id\<close> in the source).
\<close>

definition addOrderItem ::
  "bool \<Rightarrow> ident \<Rightarrow> session \<Rightarrow> ident \<Rightarrow> order_item_request \<Rightarrow> db
     \<Rightarrow> (error + order_item_row) \<times> db" where
  "addOrderItem fk iid sess oid body s =
     (if \<not> has_role sess [OWNER, SUPERVISOR, FLOOR_STAFF] then (Inl Unauthorized401, s)
      else case addOrderItemSchema body of
        None \<Rightarrow> (Inl Invalid400, s)
      | Some (menuItemId, quantity) \<Rightarrow>
         (case prisma_findUnique menu_id menuItemId (menuItems s) of
            None \<Rightarrow> (Inl NotFound404, s)
          | Some menuItem \<Rightarrow>
             (if fk \<and> oid \<notin> order_id ` set (orders s) then (Inl Failed500, s)
              else
                (let orderItem = \<lparr>item_id = iid, item_orderId = oid,
                                   item_menuItemId = menuItemId,
                                   item_quantity = \<lfloor>quantity\<rfloor>,
                                   item_price = menu_price menuItem,
                                   item_status = ITEM_PENDING\<rparr>;
                     s1 = s\<lparr>orderItems := orderItems s @ [orderItem]\<rparr>
                 in case prisma_findUnique order_id oid (orders s1) of
                      None \<Rightarrow> (Inr orderItem, s1)
                    | Some order \<Rightarrow>
                       (let newTotal = items_subtotal (order_items s1 oid)
                        in case prisma_update order_id oid
                                  (\<lambda>r. r\<lparr>totalAmount := newTotal\<rparr>) (orders s1) of
                             None \<Rightarrow> (Inl Failed500, s1)
                           | Some (r, os) \<Rightarrow> (Inr orderItem, s1\<lparr>orders := os\<rparr>))))))"

definition parse_order_status :: "string \<Rightarrow> order_status option" where
  "parse_order_status x =
     (if x = ''CREATED'' then Some CREATED
      else if x = ''PREPARING'' then Some PREPARING
      else if x = ''READY'' then Some READY
      else if x = ''SERVED'' then Some SERVED
      else if x = ''PAID'' then Some PAID
      else if x = ''CANCELLED'' then Some CANCELLED
      else None)"

text \<open>The literal that the enum of the schema has for each order status.\<close>

fun order_status_name :: "order_status \<Rightarrow> string" where
  "order_status_name CREATED = ''CREATED''"
| "order_status_name PREPARING = ''PREPARING''"
| "order_status_name READY = ''READY''"
| "order_status_name SERVED = ''SERVED''"
| "order_status_name PAID = ''PAID''"
| "order_status_name CANCELLED = ''CANCELLED''"

text \<open>
  The PUT handler of the route of one order: \<open>updateOrderStatusSchema\<close> is the enum of
  the six statuses, and the write sets the status of the order of the URL.
\<close>

definition updateOrderStatus ::
  "session \<Rightarrow> ident \<Rightarrow> string \<Rightarrow> db \<Rightarrow> (error + order_row) \<times> db" where
  "updateOrderStatus sess oid status s =
     (if \<not> has_user sess then (Inl Unauthorized401, s)
      else case parse_order_status status of
        None \<Rightarrow> (Inl Invalid400, s)
      | Some st \<Rightarrow>
         (case prisma_update order_id oid (\<lambda>r. r\<lparr>order_status := st\<rparr>) (orders s) of
            None \<Rightarrow> (Inl Failed500, s)
          | Some (order, os) \<Rightarrow> (Inr order, s\<lparr>orders := os\<rparr>)))"

definition parse_item_status :: "string \<Rightarrow> item_status option" where
  "parse_item_status x =
     (if x = ''PENDING'' then Some ITEM_PENDING
      else if x = ''PREPARING'' then Some ITEM_PREPARING
      else if x = ''READY'' then Some ITEM_READY
      else if x = ''SERVED'' then Some ITEM_SERVED
      else None)"

text \<open>The literal that the enum of the schema has for each item status.\<close>

fun item_status_name :: "item_status \<Rightarrow> string" where
  "item_status_name ITEM_PENDING = ''PENDING''"
| "item_status_name ITEM_PREPARING = ''PREPARING''"
| "item_status_name ITEM_READY = ''READY''"
| "item_status_name ITEM_SERVED = ''SERVED''"

text \<open>
  The PUT handler of the route of one order item. After the write, the order of the
  item becomes \<open>READY\<close> when it is \<open>PREPARING\<close> and every one of its items is \<open>READY\<close>.
\<close>

definition updateOrderItemStatus ::
  "session \<Rightarrow> ident \<Rightarrow> string \<Rightarrow> db \<Rightarrow> (error + order_item_row) \<times> db" where
  "updateOrderItemStatus sess itemId status s =
     (if \<not> has_user sess then (Inl Unauthorized401, s)
      else case parse_item_status status of
        None \<Rightarrow> (Inl Invalid400, s)
      | Some st \<Rightarrow>
         (case prisma_update item_id itemId (\<lambda>r. r\<lparr>item_status := st\<rparr>) (orderItems s) of
            None \<Rightarrow> (Inl Failed500, s)
          | Some (orderItem, its) \<Rightarrow>
             (let s1 = s\<lparr>orderItems := its\<rparr>
              in case prisma_findUnique order_id (item_orderId orderItem) (orders s1) of
                   None \<Rightarrow> (Inr orderItem, s1)
                 | Some order \<Rightarrow>
                    (let allReady = list_all (\<lambda>item. item_status item = ITEM_READY)
                                      (order_items s1 (order_id order))
                     in if allReady \<and> order_status order = PREPARING
                        then (case prisma_update order_id (order_id order)
                                     (\<lambda>r. r\<lparr>order_status := READY\<rparr>) (orders s1) of
                                None \<Rightarrow> (Inl Failed500, s1)
                              | Some (r, os) \<Rightarrow> (Inr orderItem, s1\<lparr>orders := os\<rparr>))
                        else (Inr orderItem, s1)))))"

text \<open>
  The DELETE handler of the route of one order item. The total is recomputed for the
  order named in the URL (\<open>orderId\<close>), from the items it has after the deletion.
\<close>

definition removeOrderItem ::
  "session \<Rightarrow> ident \<Rightarrow> ident \<Rightarrow> db \<Rightarrow> (error + unit) \<times> db" where
  "removeOrderItem sess orderId itemId s =
     (if \<not> has_user sess then (Inl Unauthorized401, s)
      else case prisma_findUnique item_id itemId (orderItems s) of
        None \<Rightarrow> (Inl NotFound404, s)
      | Some orderItem \<Rightarrow>
         (if item_status orderItem \<noteq> ITEM_PENDING then (Inl NotPending400, s)
          else
            (let s1 = s\<lparr>orderItems := filter (\<lambda>i. item_id i \<noteq> itemId) (orderItems s)\<rparr>
             in case prisma_findUnique order_id orderId (orders s1) of
                  None \<Rightarrow> (Inr (), s1)
                | Some order \<Rightarrow>
                   (let newTotal = items_subtotal (order_items s1 orderId)
                    in case prisma_update order_id orderId
                              (\<lambda>r. r\<lparr>totalAmount := newTotal\<rparr>) (orders s1) of
                         None \<Rightarrow> (Inl Failed500, s1)
                       | Some (r, os) \<Rightarrow> (Inr (), s1\<lparr>orders := os\<rparr>)))))"

section \<open>Discounts\<close>

text \<open>
  The body of a discount request. A field that is absent is \<open>None\<close>. The value is taken
  to be numeric when present (\<open>parseFloat(String(discountValue))\<close> is that number).
\<close>

record discount_request =
  dreq_orderId :: "string option"
  dreq_discountType :: "string option"
  dreq_discountValue :: "rat option"
  dreq_discountReason :: "string option"

text \<open>\<open>toLowerCase\<close> on the ASCII letters, and \<open>String.prototype.includes\<close>.\<close>

definition lower_char :: "char \<Rightarrow> char" where
  "lower_char c =
     (let n = (of_char c :: nat) in if 65 \<le> n \<and> n \<le> 90 then char_of (n + 32) else c)"

definition toLowerCase :: "string \<Rightarrow> string" where
  "toLowerCase x = map lower_char x"

fun startsWith :: "string \<Rightarrow> string \<Rightarrow> bool" where
  "startsWith x [] = True"
| "startsWith [] (c # cs) = False"
| "startsWith (d # ds) (c # cs) = (d = c \<and> startsWith ds cs)"

fun str_includes :: "string \<Rightarrow> string \<Rightarrow> bool" where
  "str_includes [] sub = (sub = [])"
| "str_includes (d # ds) sub = (startsWith (d # ds) sub \<or> str_includes ds sub)"

definition isBundleDiscount :: "string option \<Rightarrow> bool" where
  "isBundleDiscount reason0 =
     (case truthy_string reason0 of
        None \<Rightarrow> False
      | Some reason \<Rightarrow>
          str_includes (toLowerCase reason) ''bundle''
        \<or> str_includes (toLowerCase reason) ''deal''
        \<or> str_includes (toLowerCase reason) ''meal''
        \<or> str_includes (toLowerCase reason) ''promotion'')"

text \<open>
  The POST handler of the discount route. The raw SQL \<open>UPDATE ... WHERE id = orderId\<close>
  changes the rows with that id and does not throw when there is none. The response
  carries the order as read back and the discount amount.
\<close>

definition applyDiscount ::
  "session \<Rightarrow> discount_request \<Rightarrow> db \<Rightarrow> (error + order_row option \<times> rat) \<times> db" where
  "applyDiscount sess body s =
     (if \<not> has_user sess then (Inl Unauthorized401, s)
      else if \<not> has_role sess [OWNER, SUPERVISOR, FLOOR_STAFF] then (Inl Unauthorized401, s)
      else if has_role sess [FLOOR_STAFF] \<and> \<not> isBundleDiscount (dreq_discountReason body)
      then (Inl Forbidden403, s)
      else case (truthy_string (dreq_orderId body), truthy_string (dreq_discountType body),
                 dreq_discountValue body) of
        (Some orderId, Some dType, Some parsedDiscountValue) \<Rightarrow>
          (case prisma_findUnique order_id orderId (orders s) of
             None \<Rightarrow> (Inl NotFound404, s)
           | Some order \<Rightarrow>
              (let subtotal = items_subtotal (order_items s (order_id order));
                   discountAmount =
                     min (if dType = ''PERCENTAGE'' then (subtotal * parsedDiscountValue) / 100
                          else if dType = ''FIXED'' then parsedDiscountValue
                          else 0)
                         subtotal;
                   newTotal = max 0 (subtotal - discountAmount);
                   s1 = s\<lparr>orders := prisma_updateMany (\<lambda>r. order_id r = orderId)
                            (\<lambda>r. r\<lparr>discountType := Some dType,
                                    discountValue := Some parsedDiscountValue,
                                    discountReason := truthy_string (dreq_discountReason body),
                                    discountAppliedBy := Some (session_user_id sess),
                                    totalAmount := newTotal\<rparr>)
                            (orders s)\<rparr>
               in (Inr (prisma_findUnique order_id orderId (orders s1), discountAmount), s1)))
      | _ \<Rightarrow> (Inl Missing400, s))"

text \<open>
  The DELETE handler of the discount route; \<open>orderId\<close> is the query parameter, \<open>None\<close>
  when it is absent.
\<close>

definition removeDiscount ::
  "session \<Rightarrow> string option \<Rightarrow> db \<Rightarrow> (error + order_row option) \<times> db" where
  "removeDiscount sess orderId s =
     (if \<not> has_user sess then (Inl Unauthorized401, s)
      else if \<not> has_role sess [OWNER, SUPERVISOR] then (Inl Forbidden403, s)
      else case truthy_string orderId of
        None \<Rightarrow> (Inl Missing400, s)
      | Some oid \<Rightarrow>
         (case prisma_findUnique order_id oid (orders s) of
            None \<Rightarrow> (Inl NotFound404, s)
          | Some order \<Rightarrow>
             (let subtotal = items_subtotal (order_items s (order_id order));
                  s1 = s\<lparr>orders := prisma_updateMany (\<lambda>r. order_id r = oid)
                           (\<lambda>r. r\<lparr>discountType := None, discountValue := None,
                                   discountReason := None, discountAppliedBy := None,
                                   totalAmount := subtotal\<rparr>)
                           (orders s)\<rparr>
              in (Inr (prisma_findUnique order_id oid (orders s1)), s1))))"

section \<open>The pricing formulas of the specification\<close>

text \<open>
  The constant \<open>TAX_RATE = 0.13\<close> of the dashboard page, which adds the tax when it
  displays an order or sends the amount of a payment.
\<close>

definition TAX_RATE :: rat where
  "TAX_RATE = 13 / 100"

text \<open>
  The specification's DiscountAmount, Tax and GrandTotal (its section 4.2), written from
  its words, to be compared with the total that the handlers store:
  FIXED gives \<open>min(discountValue, subtotal)\<close>, PERCENTAGE gives
  \<open>subtotal * discountValue / 100\<close> clamped to the subtotal, no type gives 0; the tax is
  \<open>(subtotal - discount) * TAX_RATE\<close>; the grand total is \<open>subtotal - discount + tax\<close>.
\<close>

definition spec_DiscountAmount :: "order_row \<Rightarrow> rat \<Rightarrow> rat" where
  "spec_DiscountAmount order subtotal =
     (case (discountType order, discountValue order) of
        (Some ty, Some v) \<Rightarrow>
          (if ty = ''FIXED'' then min v subtotal
           else if ty = ''PERCENTAGE'' then min (subtotal * v / 100) subtotal
           else 0)
      | _ \<Rightarrow> 0)"

definition spec_Tax :: "order_row \<Rightarrow> rat \<Rightarrow> rat" where
  "spec_Tax order subtotal = (subtotal - spec_DiscountAmount order subtotal) * TAX_RATE"

definition spec_GrandTotal :: "order_row \<Rightarrow> order_item_row list \<Rightarrow> rat" where
  "spec_GrandTotal order items =
     items_subtotal items - spec_DiscountAmount order (items_subtotal items)
       + spec_Tax order (items_subtotal items)"

section \<open>Invariants and operation sequences\<close>

text \<open>Every order has at most one payment row.\<close>

definition at_most_one_payment :: "db \<Rightarrow> bool" where
  "at_most_one_payment s = distinct (map payment_orderId (payments s))"

text \<open>
  The star-merge invariant: a table whose \<open>mergedWithId\<close> is set is not the merge target
  of any other table.
\<close>

definition star_merge_inv :: "db \<Rightarrow> bool" where
  "star_merge_inv s =
     (\<forall>t \<in> set (tables s). mergedWithId t \<noteq> None \<longrightarrow>
        (\<forall>u \<in> set (tables s). table_id u \<noteq> table_id t \<longrightarrow> mergedWithId u \<noteq> Some (table_id t)))"

text \<open>The four operations that write the table registry, as requests.\<close>

datatype table_op =
    Merge session "string list"
  | Unmerge session "string option"
  | UpdateStatus session table_update_request
  | Settle ident session payment_request

fun run_table_op :: "bool \<Rightarrow> table_op \<Rightarrow> db \<Rightarrow> db" where
  "run_table_op fk (Merge sess tableIds) s = snd (mergeTables sess tableIds s)"
| "run_table_op fk (Unmerge sess tableId) s = snd (unmergeTables sess tableId s)"
| "run_table_op fk (UpdateStatus sess body) s = snd (updateTable fk sess body s)"
| "run_table_op fk (Settle pid sess body) s = snd (processPayment pid sess body s)"

definition run_table_ops :: "bool \<Rightarrow> table_op list \<Rightarrow> db \<Rightarrow> db" where
  "run_table_ops fk ops s = foldl (\<lambda>s' x. run_table_op fk x s') s ops"

text \<open>
  The requests that cannot build a chain: a merge whose primary is not among the other
  ids and has no \<open>mergedWithId\<close>, and none of whose other tables is a merge target; a
  table update that carries no merge link. Unmerge and Settle only clear links.
\<close>

fun star_safe :: "table_op \<Rightarrow> db \<Rightarrow> bool" where
  "star_safe (Merge sess tableIds) s =
     (case tableIds of
        [] \<Rightarrow> True
      | p # others \<Rightarrow>
          p \<notin> set others
        \<and> (\<forall>r \<in> set (tables s).
              (table_id r = p \<longrightarrow> mergedWithId r = None)
            \<and> (\<forall>x \<in> set others. mergedWithId r \<noteq> Some x)))"
| "star_safe (UpdateStatus sess body) s =
     (treq_mergedWithId body = None \<or> treq_mergedWithId body = Some None)"
| "star_safe (Unmerge sess tableId) s = True"
| "star_safe (Settle pid sess body) s = True"

text \<open>
  Every request that writes the database, and a sequence of them run from a state. The
  result of a request is the state it leaves, whatever its response.
\<close>

datatype request =
    CreateOrder "nat \<Rightarrow> ident" session order_request
  | AddItem ident session ident order_item_request
  | RemoveItem session ident ident
  | TransitionItemStatus session ident string
  | TransitionOrderStatus session ident string
  | ApplyDiscount session discount_request
  | RemoveDiscount session "string option"
  | TableOp table_op

fun run_request :: "bool \<Rightarrow> request \<Rightarrow> db \<Rightarrow> db" where
  "run_request fk (CreateOrder cuid sess body) s = snd (createOrder fk cuid sess body s)"
| "run_request fk (AddItem iid sess oid body) s = snd (addOrderItem fk iid sess oid body s)"
| "run_request fk (RemoveItem sess oid itemId) s = snd (removeOrderItem sess oid itemId s)"
| "run_request fk (TransitionItemStatus sess itemId status) s =
     snd (updateOrderItemStatus sess itemId status s)"
| "run_request fk (TransitionOrderStatus sess oid status) s =
     snd (updateOrderStatus sess oid status s)"
| "run_request fk (ApplyDiscount sess body) s = snd (applyDiscount sess body s)"
| "run_request fk (RemoveDiscount sess orderId) s = snd (removeDiscount sess orderId s)"
| "run_request fk (TableOp x) s = run_table_op fk x s"

definition run_requests :: "bool \<Rightarrow> request list \<Rightarrow> db \<Rightarrow> db" where
  "run_requests fk reqs s = foldl (\<lambda>s' x. run_request fk x s') s reqs"

section \<open>Example data\<close>

text \<open>
  Three vacant tables as the seed script creates them, the two menu items of the
  specification's pricing scenario (prices 10 and 5), and sessions of an owner and of a
  floor-staff member.
\<close>

definition example_db :: db where
  "example_db =
     \<lparr>tables = [\<lparr>table_id = ''table-1'', table_status = VACANT, mergedWithId = None\<rparr>,
                \<lparr>table_id = ''table-2'', table_status = VACANT, mergedWithId = None\<rparr>,
                \<lparr>table_id = ''table-3'', table_status = VACANT, mergedWithId = None\<rparr>],
      menuItems = [\<lparr>menu_id = ''item-1'', menu_price = 10, printStation = ''KITCHEN''\<rparr>,
                   \<lparr>menu_id = ''item-2'', menu_price = 5, printStation = ''KITCHEN''\<rparr>],
      orders = [], orderItems = [], payments = []\<rparr>"

definition owner :: session where
  "owner = Some \<lparr>user_id = ''user-1'', user_role = OWNER\<rparr>"

definition floor_staff :: session where
  "floor_staff = Some \<lparr>user_id = ''user-2'', user_role = FLOOR_STAFF\<rparr>"

text \<open>The identifiers drawn for the rows of the examples.\<close>

fun example_cuid :: "nat \<Rightarrow> ident" where
  "example_cuid 0 = ''order-1''"
| "example_cuid (Suc 0) = ''oi-1''"
| "example_cuid (Suc (Suc n)) = ''oi-2''"

text \<open>
  The order of the specification's scenario: two of the item priced 10 and one of the
  item priced 5, at table 1.
\<close>

definition example_order_request :: order_request where
  "example_order_request =
     \<lparr>oreq_tableId = ''table-1'',
      oreq_items = [\<lparr>ireq_menuItemId = ''item-1'', ireq_quantity = 2\<rparr>,
                    \<lparr>ireq_menuItemId = ''item-2'', ireq_quantity = 1\<rparr>]\<rparr>"

definition example_order_db :: db where
  "example_order_db = snd (createOrder True example_cuid owner example_order_request example_db)"

text \<open>
  The payment of that order by card, for 28.25 (the total with tax that the dashboard
  sends), and the database after it.
\<close>

definition example_payment_request :: payment_request where
  "example_payment_request =
     \<lparr>preq_orderId = ''order-1'', preq_amount = 2825 / 100, preq_method = ''CARD''\<rparr>"

definition example_paid_db :: db where
  "example_paid_db =
     snd (processPayment ''payment-1'' owner example_payment_request example_order_db)"

text \<open>
  Three more portions of the second item for that order, a discount of 10 percent on
  it, and the database after the discount.
\<close>

definition example_item_request :: order_item_request where
  "example_item_request = \<lparr>ireq_menuItemId = ''item-2'', ireq_quantity = 3\<rparr>"

definition example_discount_request :: discount_request where
  "example_discount_request =
     \<lparr>dreq_orderId = Some ''order-1'', dreq_discountType = Some ''PERCENTAGE'',
      dreq_discountValue = Some 10, dreq_discountReason = Some ''regular guest''\<rparr>"

definition example_discounted_db :: db where
  "example_discounted_db = snd (applyDiscount owner example_discount_request example_order_db)"

text \<open>
  The database with the order of the scenario after table 2 was merged into table 1, and
  a database whose only order has no table (a counter sale).
\<close>

definition example_merged_db :: db where
  "example_merged_db = snd (mergeTables owner [''table-1'', ''table-2''] example_order_db)"

text \<open>
  A counter sale of one bottle of water with a bag fee of 0.25, as the second version of
  the create handler takes it, in a database whose menu has the bottle.
\<close>

definition example_counter_db :: db where
  "example_counter_db =
     example_db\<lparr>menuItems := [\<lparr>menu_id = ''item-3'', menu_price = 2,
                               printStation = ''NO_PRINT''\<rparr>]\<rparr>"

definition example_counter_request :: order_request_v2 where
  "example_counter_request =
     \<lparr>oreq2_tableId = None, oreq2_orderType = Some ''QUICK_SALE'',
      oreq2_surcharges = Some (1 / 4),
      oreq2_items = [\<lparr>ireq_menuItemId = ''item-3'', ireq_quantity = 1\<rparr>]\<rparr>"


definition example_tableless_db :: db where
  "example_tableless_db =
     example_db
       \<lparr>orders := [\<lparr>order_id = ''order-1'', order_tableId = None, order_status = READY,
                    totalAmount = 5, discountType = None, discountValue = None,
                    discountReason = None, discountAppliedBy = None,
                    createdById = ''user-1''\<rparr>],
        orderItems := [\<lparr>item_id = ''oi-1'', item_orderId = ''order-1'',
                        item_menuItemId = ''item-2'', item_quantity = 1, item_price = 5,
                        item_status = ITEM_SERVED\<rparr>]\<rparr>"

section \<open>Properties of the persistence layer\<close>

lemma findUnique_None_iff:
  "prisma_findUnique key k rows = None \<longleftrightarrow> k \<notin> key ` set rows"
  by (auto simp: prisma_findUnique_def find_None_iff)

lemma findUnique_SomeD:
  "prisma_findUnique key k rows = Some r \<Longrightarrow> key r = k \<and> r \<in> set rows"
  by (auto simp: prisma_findUnique_def find_Some_iff)

lemma prisma_update_None_iff:
  "prisma_update key k f rows = None \<longleftrightarrow> k \<notin> key ` set rows"
proof -
  have "prisma_update key k f rows = None \<longleftrightarrow> prisma_findUnique key k rows = None"
    by (simp add: prisma_update_def split: option.splits)
  then show ?thesis by (simp only: findUnique_None_iff)
qed

lemma prisma_update_SomeD:
  "prisma_update key k f rows = Some (r, rows') \<Longrightarrow>
     k \<in> key ` set rows \<and> rows' = prisma_updateMany (\<lambda>x. key x = k) f rows
     \<and> (\<exists>r0. prisma_findUnique key k rows = Some r0 \<and> r = f r0)"
  by (auto simp: prisma_update_def dest: findUnique_SomeD split: option.splits)

lemma findUnique_updateMany:
  assumes "\<And>r. key (f r) = key r"
  shows "prisma_findUnique key k (prisma_updateMany (\<lambda>x. key x = k) f rows)
           = map_option f (prisma_findUnique key k rows)"
  using assms by (induction rows) (auto simp: prisma_findUnique_def prisma_updateMany_def)

lemma findUnique_append:
  "prisma_findUnique key k (xs @ ys) =
     (case prisma_findUnique key k xs of None \<Rightarrow> prisma_findUnique key k ys | Some r \<Rightarrow> Some r)"
  by (induction xs) (auto simp: prisma_findUnique_def)

section \<open>Settlement, case by case\<close>

lemma processPayment_tableless:
  assumes "has_role sess [OWNER, SUPERVISOR, FLOOR_STAFF]"
      and "createPaymentSchema body = Some (oid, amount, m)"
      and "prisma_findUnique order_id oid (orders s) = Some order"
      and "prisma_findUnique payment_orderId oid (payments s) = None"
      and "truthy_string (order_tableId order) = None"
  shows "processPayment pid sess body s =
           (Inr \<lparr>payment_id = pid, payment_orderId = oid, payment_amount = amount,
                 payment_method = m\<rparr>,
            s\<lparr>payments := payments s @ [\<lparr>payment_id = pid, payment_orderId = oid,
                                          payment_amount = amount, payment_method = m\<rparr>],
              orders := prisma_updateMany (\<lambda>r. order_id r = oid)
                          (\<lambda>r. r\<lparr>order_status := PAID\<rparr>) (orders s)\<rparr>)"
  using assms by (simp add: processPayment_def prisma_update_def Let_def)

lemma processPayment_table:
  assumes "has_role sess [OWNER, SUPERVISOR, FLOOR_STAFF]"
      and "createPaymentSchema body = Some (oid, amount, m)"
      and "prisma_findUnique order_id oid (orders s) = Some order"
      and "prisma_findUnique payment_orderId oid (payments s) = None"
      and "truthy_string (order_tableId order) = Some t"
      and "t \<in> table_id ` set (tables s)"
  shows "processPayment pid sess body s =
           (Inr \<lparr>payment_id = pid, payment_orderId = oid, payment_amount = amount,
                 payment_method = m\<rparr>,
            s\<lparr>payments := payments s @ [\<lparr>payment_id = pid, payment_orderId = oid,
                                          payment_amount = amount, payment_method = m\<rparr>],
              orders := prisma_updateMany (\<lambda>r. order_id r = oid)
                          (\<lambda>r. r\<lparr>order_status := PAID\<rparr>) (orders s),
              tables := prisma_updateMany (\<lambda>r. mergedWithId r = Some t)
                          (\<lambda>r. r\<lparr>mergedWithId := None, table_status := VACANT\<rparr>)
                          (prisma_updateMany (\<lambda>r. table_id r = t)
                             (\<lambda>r. r\<lparr>table_status := VACANT\<rparr>) (tables s))\<rparr>)"
proof -
  from assms(6) obtain r0 where "prisma_findUnique table_id t (tables s) = Some r0"
    using findUnique_None_iff[of table_id t "tables s"] by (cases "prisma_findUnique table_id t (tables s)") auto
  with assms(1-5) show ?thesis
    by (simp add: processPayment_def prisma_update_def Let_def)
qed

lemma processPayment_table_missing:
  assumes "has_role sess [OWNER, SUPERVISOR, FLOOR_STAFF]"
      and "createPaymentSchema body = Some (oid, amount, m)"
      and "prisma_findUnique order_id oid (orders s) = Some order"
      and "prisma_findUnique payment_orderId oid (payments s) = None"
      and "truthy_string (order_tableId order) = Some t"
      and "t \<notin> table_id ` set (tables s)"
  shows "processPayment pid sess body s =
           (Inl Failed500,
            s\<lparr>payments := payments s @ [\<lparr>payment_id = pid, payment_orderId = oid,
                                          payment_amount = amount, payment_method = m\<rparr>],
              orders := prisma_updateMany (\<lambda>r. order_id r = oid)
                          (\<lambda>r. r\<lparr>order_status := PAID\<rparr>) (orders s)\<rparr>)"
  using assms findUnique_None_iff[of table_id t "tables s"]
  by (simp add: processPayment_def prisma_update_def Let_def)

lemma processPayment_error_cases:
  "\<not> has_role sess [OWNER, SUPERVISOR, FLOOR_STAFF] \<Longrightarrow>
     processPayment pid sess body s = (Inl Unauthorized401, s)"
  "has_role sess [OWNER, SUPERVISOR, FLOOR_STAFF] \<Longrightarrow> createPaymentSchema body = None \<Longrightarrow>
     processPayment pid sess body s = (Inl Invalid400, s)"
  "has_role sess [OWNER, SUPERVISOR, FLOOR_STAFF] \<Longrightarrow>
     createPaymentSchema body = Some (oid, amount, m) \<Longrightarrow>
     prisma_findUnique order_id oid (orders s) = None \<Longrightarrow>
     processPayment pid sess body s = (Inl NotFound404, s)"
  "has_role sess [OWNER, SUPERVISOR, FLOOR_STAFF] \<Longrightarrow>
     createPaymentSchema body = Some (oid, amount, m) \<Longrightarrow>
     prisma_findUnique order_id oid (orders s) = Some order \<Longrightarrow>
     prisma_findUnique payment_orderId oid (payments s) = Some p \<Longrightarrow>
     processPayment pid sess body s = (Inl AlreadyPaid400, s)"
  by (simp_all add: processPayment_def)


section \<open>Only settlement writes payments\<close>

lemma payments_createOrder: "payments (snd (createOrder fk cuid sess body s)) = payments s"
  by (simp add: createOrder_def Let_def split: option.splits prod.splits)

lemma payments_addOrderItem: "payments (snd (addOrderItem fk iid sess oid body s)) = payments s"
  by (simp add: addOrderItem_def Let_def split: option.splits prod.splits)

lemma payments_removeOrderItem: "payments (snd (removeOrderItem sess oid itemId s)) = payments s"
  by (simp add: removeOrderItem_def Let_def split: option.splits prod.splits)

lemma payments_updateOrderItemStatus:
  "payments (snd (updateOrderItemStatus sess itemId status s)) = payments s"
  by (simp add: updateOrderItemStatus_def Let_def split: option.splits prod.splits)

lemma payments_updateOrderStatus:
  "payments (snd (updateOrderStatus sess oid status s)) = payments s"
  by (simp add: updateOrderStatus_def split: option.splits prod.splits)

lemma payments_applyDiscount: "payments (snd (applyDiscount sess body s)) = payments s"
  by (simp add: applyDiscount_def Let_def split: option.splits prod.splits)

lemma payments_removeDiscount: "payments (snd (removeDiscount sess orderId s)) = payments s"
  by (simp add: removeDiscount_def Let_def split: option.splits prod.splits)

lemma payments_transaction_table_updates:
  "transaction ws s = Some s' \<Longrightarrow> \<forall>w \<in> set ws. \<exists>k f. w = table_update k f \<Longrightarrow> payments s' = payments s"
proof (induction ws arbitrary: s)
  case Nil
  then show ?case by simp
next
  case (Cons w ws)
  then obtain k f where w: "w = table_update k f" by auto
  from Cons.prems(1) obtain s1 where s1: "w s = Some s1" and rest: "transaction ws s1 = Some s'"
    by (auto split: option.splits)
  from s1 w have "payments s1 = payments s"
    by (auto simp: table_update_def split: option.splits prod.splits)
  moreover from Cons.IH[OF rest] Cons.prems(2) have "payments s' = payments s1" by simp
  ultimately show ?case by simp
qed

lemma payments_mergeTables: "payments (snd (mergeTables sess body s)) = payments s"
proof (cases "mergeTables sess body s")
  case (Pair res s')
  show ?thesis
  proof (cases "s' = s")
    case True
    with Pair show ?thesis by simp
  next
    case False
    with Pair obtain p others where
      "transaction (table_update p (\<lambda>r. r\<lparr>table_status := OCCUPIED\<rparr>) #
                    map (\<lambda>i. table_update i (\<lambda>r. r\<lparr>mergedWithId := Some p, table_status := OCCUPIED\<rparr>)) others) s
         = Some s'"
      by (auto simp: mergeTables_def split: if_splits option.splits list.splits)
    then have "payments s' = payments s"
      by (rule payments_transaction_table_updates) auto
    with Pair show ?thesis by simp
  qed
qed

lemma payments_unmergeTables: "payments (snd (unmergeTables sess tableId s)) = payments s"
proof (cases "unmergeTables sess tableId s")
  case (Pair res s')
  show ?thesis
  proof (cases "s' = s")
    case True
    with Pair show ?thesis by simp
  next
    case False
    with Pair obtain t where
      "transaction (map (\<lambda>table. table_update (table_id table)
                                 (\<lambda>r. r\<lparr>mergedWithId := None, table_status := VACANT\<rparr>))
                         (filter (\<lambda>r. mergedWithId r = Some t) (tables s))
                     @ [table_update t (\<lambda>r. r\<lparr>table_status := VACANT\<rparr>)]) s
         = Some s'"
      by (auto simp: unmergeTables_def Let_def split: if_splits option.splits)
    then have "payments s' = payments s"
      by (rule payments_transaction_table_updates) auto
    with Pair show ?thesis by simp
  qed
qed

lemma payments_updateTable: "payments (snd (updateTable fk sess body s)) = payments s"
  by (simp add: updateTable_def split: option.splits prod.splits)

lemma at_most_one_processPayment:
  assumes "at_most_one_payment s"
  shows "at_most_one_payment (snd (processPayment pid sess body s))"
proof -
  have "payments (snd (processPayment pid sess body s)) = payments s
        \<or> (\<exists>p. payments (snd (processPayment pid sess body s)) = payments s @ [p]
               \<and> payment_orderId p \<notin> payment_orderId ` set (payments s))"
    by (auto simp: processPayment_def Let_def findUnique_None_iff
             split: option.splits prod.splits)
  with assms show ?thesis by (auto simp: at_most_one_payment_def)
qed

lemma at_most_one_run_request:
  assumes "at_most_one_payment s"
  shows "at_most_one_payment (run_request fk req s)"
proof (cases req)
  case (TableOp x)
  with assms show ?thesis
    by (cases x)
       (simp_all add: at_most_one_processPayment,
        simp_all add: at_most_one_payment_def payments_mergeTables payments_unmergeTables
                      payments_updateTable)
qed (use assms in \<open>simp_all add: at_most_one_payment_def payments_createOrder
       payments_addOrderItem payments_removeOrderItem payments_updateOrderItemStatus
       payments_updateOrderStatus payments_applyDiscount payments_removeDiscount\<close>)

lemma at_most_one_run_requests:
  "at_most_one_payment s \<Longrightarrow> at_most_one_payment (run_requests fk reqs s)"
  unfolding run_requests_def
  by (induction reqs arbitrary: s) (simp_all add: at_most_one_run_request)

section \<open>Evaluation of the examples\<close>

lemmas eval_defs =
  example_db_def owner_def floor_staff_def example_order_request_def
  example_payment_request_def
  has_role_def has_user_def session_user_id_def truthy_string_def
  prisma_findUnique_def prisma_updateMany_def prisma_update_def table_update_def
  createOrderSchema_def addOrderItemSchema_def positive_int_def menuItemPrices_def
  createPaymentSchema_def parse_payment_method_def mergeTablesSchema_def
  updateTableSchema_def parse_table_status_def table_data_def
  parse_order_status_def parse_item_status_def
  order_items_def items_subtotal_def enumerate_eq_zip Let_def

lemma example_order_db_eq:
  "example_order_db =
     \<lparr>tables = [\<lparr>table_id = ''table-1'', table_status = OCCUPIED, mergedWithId = None\<rparr>,
                \<lparr>table_id = ''table-2'', table_status = VACANT, mergedWithId = None\<rparr>,
                \<lparr>table_id = ''table-3'', table_status = VACANT, mergedWithId = None\<rparr>],
      menuItems = [\<lparr>menu_id = ''item-1'', menu_price = 10, printStation = ''KITCHEN''\<rparr>,
                   \<lparr>menu_id = ''item-2'', menu_price = 5, printStation = ''KITCHEN''\<rparr>],
      orders = [\<lparr>order_id = ''order-1'', order_tableId = Some ''table-1'',
                 order_status = CREATED, totalAmount = 25, discountType = None,
                 discountValue = None, discountReason = None, discountAppliedBy = None,
                 createdById = ''user-1''\<rparr>],
      orderItems = [\<lparr>item_id = ''oi-1'', item_orderId = ''order-1'',
                     item_menuItemId = ''item-1'', item_quantity = 2, item_price = 10,
                     item_status = ITEM_PENDING\<rparr>,
                    \<lparr>item_id = ''oi-2'', item_orderId = ''order-1'',
                     item_menuItemId = ''item-2'', item_quantity = 1, item_price = 5,
                     item_status = ITEM_PENDING\<rparr>],
      payments = []\<rparr>"
  unfolding example_order_db_def
  by (simp add: createOrder_def eval_defs)

lemma example_paid_db_eq:
  "example_paid_db =
     \<lparr>tables = [\<lparr>table_id = ''table-1'', table_status = VACANT, mergedWithId = None\<rparr>,
                \<lparr>table_id = ''table-2'', table_status = VACANT, mergedWithId = None\<rparr>,
                \<lparr>table_id = ''table-3'', table_status = VACANT, mergedWithId = None\<rparr>],
      menuItems = [\<lparr>menu_id = ''item-1'', menu_price = 10, printStation = ''KITCHEN''\<rparr>,
                   \<lparr>menu_id = ''item-2'', menu_price = 5, printStation = ''KITCHEN''\<rparr>],
      orders = [\<lparr>order_id = ''order-1'', order_tableId = Some ''table-1'',
                 order_status = PAID, totalAmount = 25, discountType = None,
                 discountValue = None, discountReason = None, discountAppliedBy = None,
                 createdById = ''user-1''\<rparr>],
      orderItems = [\<lparr>item_id = ''oi-1'', item_orderId = ''order-1'',
                     item_menuItemId = ''item-1'', item_quantity = 2, item_price = 10,
                     item_status = ITEM_PENDING\<rparr>,
                    \<lparr>item_id = ''oi-2'', item_orderId = ''order-1'',
                     item_menuItemId = ''item-2'', item_quantity = 1, item_price = 5,
                     item_status = ITEM_PENDING\<rparr>],
      payments = [\<lparr>payment_id = ''payment-1'', payment_orderId = ''order-1'',
                   payment_amount = 113 / 4, payment_method = CARD\<rparr>]\<rparr>"
  unfolding example_paid_db_def example_order_db_eq
  by (simp add: processPayment_def eval_defs)

section \<open>Payment settlement: duplicate settlement\<close>

text \<open>
  Claim C4. A settlement request for an order that already has a payment row is answered
  with \<open>'Order already paid'\<close> and leaves the whole database as it was: no payment is
  created, and the status of the order and the tables are unchanged. Hence, in every state
  that a sequence of requests reaches from a database without payments, each order has at
  most one payment.
\<close>

theorem settle_already_paid:
  "(has_role sess [OWNER, SUPERVISOR, FLOOR_STAFF]
      \<and> createPaymentSchema body = Some (oid, amount, m)
      \<and> prisma_findUnique order_id oid (orders s) = Some order
      \<and> prisma_findUnique payment_orderId oid (payments s) = Some p
      \<longrightarrow> processPayment pid sess body s = (Inl AlreadyPaid400, s))
   \<and> (payments s0 = [] \<longrightarrow> at_most_one_payment (run_requests fk reqs s0))"
proof (intro conjI impI)
  assume "has_role sess [OWNER, SUPERVISOR, FLOOR_STAFF]
      \<and> createPaymentSchema body = Some (oid, amount, m)
      \<and> prisma_findUnique order_id oid (orders s) = Some order
      \<and> prisma_findUnique payment_orderId oid (payments s) = Some p"
  then show "processPayment pid sess body s = (Inl AlreadyPaid400, s)"
    by (simp add: processPayment_def)
next
  assume "payments s0 = []"
  then have "at_most_one_payment s0" by (simp add: at_most_one_payment_def)
  then show "at_most_one_payment (run_requests fk reqs s0)"
    by (rule at_most_one_run_requests)
qed

theorem settle_already_paid_witness:
  "has_role owner [OWNER, SUPERVISOR, FLOOR_STAFF]
   \<and> createPaymentSchema example_payment_request = Some (''order-1'', 113 / 4, CARD)
   \<and> prisma_findUnique order_id ''order-1'' (orders example_paid_db) \<noteq> None
   \<and> prisma_findUnique payment_orderId ''order-1'' (payments example_paid_db) \<noteq> None
   \<and> processPayment ''payment-2'' owner example_payment_request example_paid_db
        = (Inl AlreadyPaid400, example_paid_db)
   \<and> payments example_db = []
   \<and> at_most_one_payment
        (run_requests True
           [CreateOrder example_cuid owner example_order_request,
            TableOp (Settle ''payment-1'' owner example_payment_request),
            TableOp (Settle ''payment-2'' owner example_payment_request)]
           example_db)"
proof -
  have a: "has_role owner [OWNER, SUPERVISOR, FLOOR_STAFF]"
    by (simp add: eval_defs)
  have b: "createPaymentSchema example_payment_request = Some (''order-1'', 113 / 4, CARD)"
    by (simp add: eval_defs)
  obtain order where c: "prisma_findUnique order_id ''order-1'' (orders example_paid_db) = Some order"
    by (simp add: example_paid_db_eq eval_defs)
  obtain p where d: "prisma_findUnique payment_orderId ''order-1'' (payments example_paid_db) = Some p"
    by (simp add: example_paid_db_eq eval_defs)
  have e: "payments example_db = []"
    by (simp add: example_db_def)
  from a b c d e
    settle_already_paid [of owner example_payment_request "''order-1''" "113 / 4" CARD
      example_paid_db order p "''payment-2''" example_db True
      "[CreateOrder example_cuid owner example_order_request,
        TableOp (Settle ''payment-1'' owner example_payment_request),
        TableOp (Settle ''payment-2'' owner example_payment_request)]"]
  show ?thesis by simp
qed


section \<open>Successful settlement\<close>

lemma createPaymentSchema_SomeD:
  "createPaymentSchema body = Some (oid, amount, m) \<Longrightarrow>
     oid = preq_orderId body \<and> amount = preq_amount body \<and> 0 < amount \<and> oid \<noteq> []
     \<and> parse_payment_method (preq_method body) = Some m"
  by (auto simp: createPaymentSchema_def split: if_splits option.splits)

lemma processPayment_InrD:
  assumes "processPayment pid sess body s = (Inr pay, s')"
  shows "has_role sess [OWNER, SUPERVISOR, FLOOR_STAFF] \<and>
         (\<exists>oid amount m order.
            createPaymentSchema body = Some (oid, amount, m)
          \<and> prisma_findUnique order_id oid (orders s) = Some order
          \<and> prisma_findUnique payment_orderId oid (payments s) = None
          \<and> (truthy_string (order_tableId order) = None
               \<or> (\<exists>t. truthy_string (order_tableId order) = Some t
                       \<and> t \<in> table_id ` set (tables s))))"
proof -
  from assms have role: "has_role sess [OWNER, SUPERVISOR, FLOOR_STAFF]"
    by (auto simp: processPayment_def split: if_splits)
  with assms obtain oid amount m where sc: "createPaymentSchema body = Some (oid, amount, m)"
    by (cases "createPaymentSchema body") (auto simp: processPayment_def)
  with assms role obtain order where ord: "prisma_findUnique order_id oid (orders s) = Some order"
    by (cases "prisma_findUnique order_id oid (orders s)") (auto simp: processPayment_def)
  with assms role sc have pay: "prisma_findUnique payment_orderId oid (payments s) = None"
    by (cases "prisma_findUnique payment_orderId oid (payments s)") (auto simp: processPayment_def)
  have "truthy_string (order_tableId order) = None
        \<or> (\<exists>t. truthy_string (order_tableId order) = Some t \<and> t \<in> table_id ` set (tables s))"
  proof (cases "truthy_string (order_tableId order)")
    case None
    then show ?thesis by simp
  next
    case (Some t)
    have "t \<in> table_id ` set (tables s)"
    proof (rule ccontr)
      assume "t \<notin> table_id ` set (tables s)"
      from processPayment_table_missing[OF role sc ord pay Some this, of pid] assms
      show False by simp
    qed
    with Some show ?thesis by simp
  qed
  with role sc ord pay show ?thesis by blast
qed

lemma truthy_string_Some_iff: "truthy_string x = Some t \<longleftrightarrow> x = Some t \<and> t \<noteq> []"
  by (auto simp: truthy_string_def split: option.splits)

lemma truthy_string_None_iff: "truthy_string x = None \<longleftrightarrow> x = None \<or> x = Some []"
  by (auto simp: truthy_string_def split: option.splits)

text \<open>
  Claim C5. When a settlement succeeds for an order with a table \<open>t\<close>, every row of table
  \<open>t\<close> becomes \<open>VACANT\<close>, every table that was merged into \<open>t\<close> loses its \<open>mergedWithId\<close>
  and becomes \<open>VACANT\<close>, no table is merged into \<open>t\<close> afterwards, and the other tables
  are as before. When it succeeds for an order without a table, the tables are unchanged.
\<close>

theorem settle_releases_table:
  assumes "processPayment pid sess body s = (Inr pay, s')"
      and "prisma_findUnique order_id (preq_orderId body) (orders s) = Some order"
  shows "(\<forall>t. order_tableId order = Some t \<and> t \<noteq> [] \<longrightarrow>
            t \<in> table_id ` set (tables s)
          \<and> map table_id (tables s') = map table_id (tables s)
          \<and> (\<forall>i < length (tables s).
                (table_id (tables s ! i) = t \<longrightarrow> table_status (tables s' ! i) = VACANT)
              \<and> (mergedWithId (tables s ! i) = Some t \<longrightarrow>
                   mergedWithId (tables s' ! i) = None \<and> table_status (tables s' ! i) = VACANT)
              \<and> (table_id (tables s ! i) \<noteq> t \<and> mergedWithId (tables s ! i) \<noteq> Some t \<longrightarrow>
                   tables s' ! i = tables s ! i))
          \<and> (\<forall>r \<in> set (tables s'). mergedWithId r \<noteq> Some t))
       \<and> (order_tableId order = None \<or> order_tableId order = Some [] \<longrightarrow> tables s' = tables s)"
proof -
  from processPayment_InrD[OF assms(1)] obtain oid amount m order' where
    role: "has_role sess [OWNER, SUPERVISOR, FLOOR_STAFF]" and
    sc: "createPaymentSchema body = Some (oid, amount, m)" and
    ord': "prisma_findUnique order_id oid (orders s) = Some order'" and
    pay: "prisma_findUnique payment_orderId oid (payments s) = None" and
    tab: "truthy_string (order_tableId order') = None
          \<or> (\<exists>t. truthy_string (order_tableId order') = Some t \<and> t \<in> table_id ` set (tables s))"
    by blast
  from sc have "oid = preq_orderId body" by (simp add: createPaymentSchema_SomeD)
  with ord' assms(2) have [simp]: "order' = order" by simp
  have ord: "prisma_findUnique order_id oid (orders s) = Some order" using ord' by simp
  have tableless: "tables s' = tables s" if "order_tableId order = None \<or> order_tableId order = Some []"
  proof -
    from that have "truthy_string (order_tableId order) = None"
      by (simp add: truthy_string_None_iff)
    from processPayment_tableless[OF role sc ord pay this, of pid] assms(1)
    show ?thesis by auto
  qed
  have withtable:
     "t \<in> table_id ` set (tables s)
          \<and> map table_id (tables s') = map table_id (tables s)
          \<and> (\<forall>i < length (tables s).
                (table_id (tables s ! i) = t \<longrightarrow> table_status (tables s' ! i) = VACANT)
              \<and> (mergedWithId (tables s ! i) = Some t \<longrightarrow>
                   mergedWithId (tables s' ! i) = None \<and> table_status (tables s' ! i) = VACANT)
              \<and> (table_id (tables s ! i) \<noteq> t \<and> mergedWithId (tables s ! i) \<noteq> Some t \<longrightarrow>
                   tables s' ! i = tables s ! i))
          \<and> (\<forall>r \<in> set (tables s'). mergedWithId r \<noteq> Some t)"
    if "order_tableId order = Some t \<and> t \<noteq> []" for t
  proof -
    from that have tr: "truthy_string (order_tableId order) = Some t"
      by (simp add: truthy_string_Some_iff)
    with tab have ex: "t \<in> table_id ` set (tables s)" by simp
    from processPayment_table[OF role sc ord pay tr ex, of pid] assms(1)
    have s': "tables s' = prisma_updateMany (\<lambda>r. mergedWithId r = Some t)
                          (\<lambda>r. r\<lparr>mergedWithId := None, table_status := VACANT\<rparr>)
                          (prisma_updateMany (\<lambda>r. table_id r = t)
                             (\<lambda>r. r\<lparr>table_status := VACANT\<rparr>) (tables s))"
      by auto
    have ids: "map table_id (tables s') = map table_id (tables s)"
      unfolding s' by (simp add: prisma_updateMany_def)
    have rows: "\<forall>i < length (tables s).
                (table_id (tables s ! i) = t \<longrightarrow> table_status (tables s' ! i) = VACANT)
              \<and> (mergedWithId (tables s ! i) = Some t \<longrightarrow>
                   mergedWithId (tables s' ! i) = None \<and> table_status (tables s' ! i) = VACANT)
              \<and> (table_id (tables s ! i) \<noteq> t \<and> mergedWithId (tables s ! i) \<noteq> Some t \<longrightarrow>
                   tables s' ! i = tables s ! i)"
      unfolding s' by (simp add: prisma_updateMany_def)
    have none: "\<forall>r \<in> set (tables s'). mergedWithId r \<noteq> Some t"
      unfolding s' by (auto simp: prisma_updateMany_def)
    from ex ids rows none show ?thesis by blast
  qed
  from tableless withtable show ?thesis by blast
qed


lemma example_merged_db_eq:
  "example_merged_db =
     \<lparr>tables = [\<lparr>table_id = ''table-1'', table_status = OCCUPIED, mergedWithId = None\<rparr>,
                \<lparr>table_id = ''table-2'', table_status = OCCUPIED, mergedWithId = Some ''table-1''\<rparr>,
                \<lparr>table_id = ''table-3'', table_status = VACANT, mergedWithId = None\<rparr>],
      menuItems = [\<lparr>menu_id = ''item-1'', menu_price = 10, printStation = ''KITCHEN''\<rparr>,
                   \<lparr>menu_id = ''item-2'', menu_price = 5, printStation = ''KITCHEN''\<rparr>],
      orders = [\<lparr>order_id = ''order-1'', order_tableId = Some ''table-1'',
                 order_status = CREATED, totalAmount = 25, discountType = None,
                 discountValue = None, discountReason = None, discountAppliedBy = None,
                 createdById = ''user-1''\<rparr>],
      orderItems = [\<lparr>item_id = ''oi-1'', item_orderId = ''order-1'',
                     item_menuItemId = ''item-1'', item_quantity = 2, item_price = 10,
                     item_status = ITEM_PENDING\<rparr>,
                    \<lparr>item_id = ''oi-2'', item_orderId = ''order-1'',
                     item_menuItemId = ''item-2'', item_quantity = 1, item_price = 5,
                     item_status = ITEM_PENDING\<rparr>],
      payments = []\<rparr>"
  unfolding example_merged_db_def example_order_db_eq
  by (simp add: mergeTables_def eval_defs)

theorem settle_releases_table_witness:
  "fst (processPayment ''payment-1'' owner example_payment_request example_merged_db)
     = Inr \<lparr>payment_id = ''payment-1'', payment_orderId = ''order-1'',
            payment_amount = 113 / 4, payment_method = CARD\<rparr>
   \<and> map order_tableId (orders example_merged_db) = [Some ''table-1'']
   \<and> map mergedWithId (tables example_merged_db) = [None, Some ''table-1'', None]
   \<and> Some ''table-1''
        \<notin> mergedWithId ` set (tables (snd (processPayment ''payment-1'' owner
                                               example_payment_request example_merged_db)))
   \<and> table_status (tables (snd (processPayment ''payment-1'' owner example_payment_request
                                 example_merged_db)) ! 0) = VACANT
   \<and> table_status (tables (snd (processPayment ''payment-1'' owner example_payment_request
                                 example_merged_db)) ! 1) = VACANT
   \<and> fst (processPayment ''payment-1'' owner example_payment_request example_tableless_db)
       = Inr \<lparr>payment_id = ''payment-1'', payment_orderId = ''order-1'',
              payment_amount = 113 / 4, payment_method = CARD\<rparr>
   \<and> map order_tableId (orders example_tableless_db) = [None]
   \<and> tables (snd (processPayment ''payment-1'' owner example_payment_request
                     example_tableless_db)) = tables example_tableless_db"
proof -
  let ?pay = "\<lparr>payment_id = ''payment-1'', payment_orderId = ''order-1'',
               payment_amount = 113 / 4, payment_method = CARD\<rparr>"
  let ?order = "\<lparr>order_id = ''order-1'', order_tableId = Some ''table-1'',
                 order_status = CREATED, totalAmount = 25, discountType = None,
                 discountValue = None, discountReason = None, discountAppliedBy = None,
                 createdById = ''user-1''\<rparr>"
  let ?order2 = "\<lparr>order_id = ''order-1'', order_tableId = None, order_status = READY,
                    totalAmount = 5, discountType = None, discountValue = None,
                    discountReason = None, discountAppliedBy = None,
                    createdById = ''user-1''\<rparr>"
  let ?s1 = "snd (processPayment ''payment-1'' owner example_payment_request example_merged_db)"
  let ?s2 = "snd (processPayment ''payment-1'' owner example_payment_request example_tableless_db)"
  have a1: "processPayment ''payment-1'' owner example_payment_request example_merged_db
              = (Inr ?pay, ?s1)"
    by (simp add: example_merged_db_eq processPayment_def eval_defs)
  have b1: "prisma_findUnique order_id (preq_orderId example_payment_request)
              (orders example_merged_db) = Some ?order"
    by (simp add: example_merged_db_eq eval_defs)
  have a2: "processPayment ''payment-1'' owner example_payment_request example_tableless_db
              = (Inr ?pay, ?s2)"
    by (simp add: example_tableless_db_def processPayment_def eval_defs)
  have b2: "prisma_findUnique order_id (preq_orderId example_payment_request)
              (orders example_tableless_db) = Some ?order2"
    by (simp add: example_tableless_db_def eval_defs)
  have len: "length (tables example_merged_db) = 3"
            "table_id (tables example_merged_db ! 0) = ''table-1''"
            "mergedWithId (tables example_merged_db ! 1) = Some ''table-1''"
    by (simp_all add: example_merged_db_eq)
  have "order_tableId ?order = Some ''table-1'' \<and> ''table-1'' \<noteq> []"
    by simp
  with settle_releases_table [OF a1 b1]
  have rows: "\<forall>i < length (tables example_merged_db).
                (table_id (tables example_merged_db ! i) = ''table-1'' \<longrightarrow>
                   table_status (tables ?s1 ! i) = VACANT)
              \<and> (mergedWithId (tables example_merged_db ! i) = Some ''table-1'' \<longrightarrow>
                   mergedWithId (tables ?s1 ! i) = None \<and> table_status (tables ?s1 ! i) = VACANT)
              \<and> (table_id (tables example_merged_db ! i) \<noteq> ''table-1''
                   \<and> mergedWithId (tables example_merged_db ! i) \<noteq> Some ''table-1'' \<longrightarrow>
                   tables ?s1 ! i = tables example_merged_db ! i)"
    and none: "\<forall>r \<in> set (tables ?s1). mergedWithId r \<noteq> Some ''table-1''"
    by blast+
  from rows [rule_format, of 0] rows [rule_format, of 1] len none
  have c1: "Some ''table-1'' \<notin> mergedWithId ` set (tables ?s1)
            \<and> table_status (tables ?s1 ! 0) = VACANT \<and> table_status (tables ?s1 ! 1) = VACANT"
    by (simp add: image_iff) metis
  from settle_releases_table [OF a2 b2]
  have c2: "tables ?s2 = tables example_tableless_db"
    by simp
  have d: "map order_tableId (orders example_merged_db) = [Some ''table-1'']"
          "map mergedWithId (tables example_merged_db) = [None, Some ''table-1'', None]"
          "map order_tableId (orders example_tableless_db) = [None]"
    by (simp_all add: example_merged_db_eq example_tableless_db_def example_db_def)
  from a1 have f1: "fst (processPayment ''payment-1'' owner example_payment_request
                          example_merged_db) = Inr ?pay"
    by (metis fst_conv)
  from a2 have f2: "fst (processPayment ''payment-1'' owner example_payment_request
                          example_tableless_db) = Inr ?pay"
    by (metis fst_conv)
  from f1 f2 c1 c2 d show ?thesis by simp
qed

text \<open>
  Claim C10. For an existing order without a payment, a settlement request of an
  authorised caller with any positive amount and a valid method creates the payment row
  with the amount as sent and makes the order \<open>PAID\<close>, whatever the status and the
  stored total of the order; neither is read. The response is the success response
  whenever the table of the order, if it has one, exists.
\<close>

theorem settle_any_amount_any_status:
  assumes "has_role sess [OWNER, SUPERVISOR, FLOOR_STAFF]"
      and "preq_orderId body \<noteq> []"
      and "0 < preq_amount body"
      and "parse_payment_method (preq_method body) = Some m"
      and "prisma_findUnique order_id (preq_orderId body) (orders s) = Some order"
      and "prisma_findUnique payment_orderId (preq_orderId body) (payments s) = None"
  shows "payments (snd (processPayment pid sess body s))
           = payments s @ [\<lparr>payment_id = pid, payment_orderId = preq_orderId body,
                             payment_amount = preq_amount body, payment_method = m\<rparr>]
       \<and> prisma_findUnique order_id (preq_orderId body)
            (orders (snd (processPayment pid sess body s)))
           = Some (order\<lparr>order_status := PAID\<rparr>)
       \<and> (\<forall>r \<in> set (orders (snd (processPayment pid sess body s))).
             order_id r = preq_orderId body \<longrightarrow> order_status r = PAID)
       \<and> ((\<forall>t. order_tableId order = Some t \<and> t \<noteq> [] \<longrightarrow> t \<in> table_id ` set (tables s)) \<longrightarrow>
             fst (processPayment pid sess body s)
               = Inr \<lparr>payment_id = pid, payment_orderId = preq_orderId body,
                      payment_amount = preq_amount body, payment_method = m\<rparr>)"
proof -
  let ?oid = "preq_orderId body"
  let ?os = "prisma_updateMany (\<lambda>r. order_id r = ?oid) (\<lambda>r. r\<lparr>order_status := PAID\<rparr>) (orders s)"
  from assms(2-4) have sc: "createPaymentSchema body = Some (?oid, preq_amount body, m)"
    by (cases "preq_orderId body") (simp_all add: createPaymentSchema_def)
  have f: "prisma_findUnique order_id ?oid ?os = Some (order\<lparr>order_status := PAID\<rparr>)"
    using assms(5) by (simp add: findUnique_updateMany)
  have g: "\<forall>r \<in> set ?os. order_id r = ?oid \<longrightarrow> order_status r = PAID"
    by (auto simp: prisma_updateMany_def)
  show ?thesis
  proof (cases "truthy_string (order_tableId order)")
    case None
    from processPayment_tableless[OF assms(1) sc assms(5) assms(6) None, of pid] f g
    show ?thesis by simp
  next
    case (Some t)
    show ?thesis
    proof (cases "t \<in> table_id ` set (tables s)")
      case True
      from processPayment_table[OF assms(1) sc assms(5) assms(6) Some True, of pid] f g
      show ?thesis by simp
    next
      case False
      from Some have "order_tableId order = Some t \<and> t \<noteq> []"
        by (simp add: truthy_string_Some_iff)
      with False
      have "\<not> (\<forall>t. order_tableId order = Some t \<and> t \<noteq> [] \<longrightarrow> t \<in> table_id ` set (tables s))"
        by blast
      with processPayment_table_missing[OF assms(1) sc assms(5) assms(6) Some False, of pid] f g
      show ?thesis by simp
    qed
  qed
qed

theorem settle_any_amount_any_status_witness:
  "map order_status (orders example_order_db) = [CREATED]
   \<and> map totalAmount (orders example_order_db) = [25]
   \<and> preq_amount example_payment_request = 113 / 4
   \<and> fst (processPayment ''payment-1'' owner example_payment_request example_order_db)
       = Inr \<lparr>payment_id = ''payment-1'', payment_orderId = ''order-1'',
              payment_amount = 113 / 4, payment_method = CARD\<rparr>
   \<and> payments (snd (processPayment ''payment-1'' owner example_payment_request example_order_db))
       = [\<lparr>payment_id = ''payment-1'', payment_orderId = ''order-1'',
           payment_amount = 113 / 4, payment_method = CARD\<rparr>]
   \<and> map_option order_status
        (prisma_findUnique order_id ''order-1''
           (orders (snd (processPayment ''payment-1'' owner example_payment_request
                           example_order_db))))
       = Some PAID"
proof -
  let ?order = "\<lparr>order_id = ''order-1'', order_tableId = Some ''table-1'',
                 order_status = CREATED, totalAmount = 25, discountType = None,
                 discountValue = None, discountReason = None, discountAppliedBy = None,
                 createdById = ''user-1''\<rparr>"
  have h1: "has_role owner [OWNER, SUPERVISOR, FLOOR_STAFF]"
    by (simp add: eval_defs)
  have h2: "preq_orderId example_payment_request \<noteq> []"
    by (simp add: example_payment_request_def)
  have h3: "0 < preq_amount example_payment_request"
    by (simp add: example_payment_request_def)
  have h4: "parse_payment_method (preq_method example_payment_request) = Some CARD"
    by (simp add: eval_defs)
  have h5: "prisma_findUnique order_id (preq_orderId example_payment_request)
              (orders example_order_db) = Some ?order"
    by (simp add: example_order_db_eq eval_defs)
  have h6: "prisma_findUnique payment_orderId (preq_orderId example_payment_request)
              (payments example_order_db) = None"
    by (simp add: example_order_db_eq eval_defs)
  have h7: "\<forall>t. order_tableId ?order = Some t \<and> t \<noteq> [] \<longrightarrow>
                t \<in> table_id ` set (tables example_order_db)"
    by (simp add: example_order_db_eq)
  have e: "map order_status (orders example_order_db) = [CREATED]"
          "map totalAmount (orders example_order_db) = [25]"
          "preq_amount example_payment_request = 113 / 4"
          "preq_orderId example_payment_request = ''order-1''"
          "payments example_order_db = []"
    by (simp_all add: example_order_db_eq example_payment_request_def)
  from settle_any_amount_any_status [OF h1 h2 h3 h4 h5 h6, of "''payment-1''"] h7 e
  show ?thesis by simp
qed

section \<open>Status transitions\<close>

lemma parse_order_status_name: "parse_order_status (order_status_name st) = Some st"
  by (cases st) (simp_all add: parse_order_status_def)

lemma parse_item_status_name: "parse_item_status (item_status_name st) = Some st"
  by (cases st) (simp_all add: parse_item_status_def)

lemma prisma_update_found:
  assumes "prisma_findUnique key k rows = Some r"
  shows "prisma_update key k f rows = Some (f r, prisma_updateMany (\<lambda>x. key x = k) f rows)"
  using assms by (simp add: prisma_update_def)

text \<open>
  Claim C2, as the code has it. The handler validates only that the requested status is
  one of the six order statuses (\<open>Invalid400\<close> otherwise); it makes no check against
  the state graph. For an existing order in any status and any requested status, the
  request succeeds and the order has the requested status afterwards.
\<close>

theorem order_status_set_unchecked:
  assumes "has_user sess"
      and "prisma_findUnique order_id oid (orders s) = Some order"
  shows "(\<forall>st. \<exists>s'. updateOrderStatus sess oid (order_status_name st) s
                       = (Inr (order\<lparr>order_status := st\<rparr>), s')
                  \<and> prisma_findUnique order_id oid (orders s')
                       = Some (order\<lparr>order_status := st\<rparr>))
       \<and> (parse_order_status status = None \<longrightarrow>
            updateOrderStatus sess oid status s = (Inl Invalid400, s))"
proof (intro conjI allI impI)
  fix st
  let ?os = "prisma_updateMany (\<lambda>x. order_id x = oid) (\<lambda>r. r\<lparr>order_status := st\<rparr>) (orders s)"
  have "updateOrderStatus sess oid (order_status_name st) s
          = (Inr (order\<lparr>order_status := st\<rparr>), s\<lparr>orders := ?os\<rparr>)"
    using assms
    by (simp add: updateOrderStatus_def parse_order_status_name prisma_update_found)
  moreover have "prisma_findUnique order_id oid ?os = Some (order\<lparr>order_status := st\<rparr>)"
    using assms(2) by (simp add: findUnique_updateMany)
  ultimately show "\<exists>s'. updateOrderStatus sess oid (order_status_name st) s
                       = (Inr (order\<lparr>order_status := st\<rparr>), s')
                  \<and> prisma_findUnique order_id oid (orders s')
                       = Some (order\<lparr>order_status := st\<rparr>)"
    by simp
next
  assume "parse_order_status status = None"
  with assms(1) show "updateOrderStatus sess oid status s = (Inl Invalid400, s)"
    by (simp add: updateOrderStatus_def)
qed

theorem order_status_set_unchecked_witness:
  "has_user floor_staff
   \<and> map order_status (orders example_paid_db) = [PAID]
   \<and> fst (updateOrderStatus floor_staff ''order-1'' ''CREATED'' example_paid_db)
        = Inr \<lparr>order_id = ''order-1'', order_tableId = Some ''table-1'',
               order_status = CREATED, totalAmount = 25, discountType = None,
               discountValue = None, discountReason = None, discountAppliedBy = None,
               createdById = ''user-1''\<rparr>
   \<and> parse_order_status ''VOID'' = None
   \<and> updateOrderStatus floor_staff ''order-1'' ''VOID'' example_paid_db
        = (Inl Invalid400, example_paid_db)"
proof -
  let ?order = "\<lparr>order_id = ''order-1'', order_tableId = Some ''table-1'',
                 order_status = PAID, totalAmount = 25, discountType = None,
                 discountValue = None, discountReason = None, discountAppliedBy = None,
                 createdById = ''user-1''\<rparr>"
  have a: "has_user floor_staff"
    by (simp add: has_user_def floor_staff_def)
  have b: "prisma_findUnique order_id ''order-1'' (orders example_paid_db) = Some ?order"
    by (simp add: example_paid_db_eq eval_defs)
  have c: "parse_order_status ''VOID'' = None"
    by (simp add: parse_order_status_def)
  have d: "map order_status (orders example_paid_db) = [PAID]"
    by (simp add: example_paid_db_eq)
  note T = order_status_set_unchecked [OF a b, of "''VOID''"]
  from T have "\<exists>s'. updateOrderStatus floor_staff ''order-1'' (order_status_name CREATED)
                       example_paid_db = (Inr (?order\<lparr>order_status := CREATED\<rparr>), s')"
    by blast
  then have e: "fst (updateOrderStatus floor_staff ''order-1'' ''CREATED'' example_paid_db)
                  = Inr (?order\<lparr>order_status := CREATED\<rparr>)"
    by auto
  from T c have f: "updateOrderStatus floor_staff ''order-1'' ''VOID'' example_paid_db
                      = (Inl Invalid400, example_paid_db)"
    by blast
  from a c d e f show ?thesis by simp
qed

text \<open>
  Claim C2, as stated, fails: the order of the example is \<open>CREATED\<close>, and the request to
  make it \<open>PAID\<close> is not rejected; it succeeds and stores \<open>PAID\<close>.
\<close>

theorem order_created_to_paid_accepted:
  "map order_status (orders example_order_db) = [CREATED]
   \<and> fst (updateOrderStatus floor_staff ''order-1'' ''PAID'' example_order_db)
       = Inr \<lparr>order_id = ''order-1'', order_tableId = Some ''table-1'',
              order_status = PAID, totalAmount = 25, discountType = None,
              discountValue = None, discountReason = None, discountAppliedBy = None,
              createdById = ''user-1''\<rparr>
   \<and> map order_status
        (orders (snd (updateOrderStatus floor_staff ''order-1'' ''PAID'' example_order_db)))
       = [PAID]"
  by (simp add: example_order_db_eq updateOrderStatus_def floor_staff_def eval_defs)


lemma findUnique_own_key:
  "prisma_findUnique key k rows = Some r \<Longrightarrow> prisma_findUnique key (key r) rows = Some r"
  using findUnique_SomeD by fastforce

lemma updateOrderItemStatus_found:
  assumes "has_user sess"
      and "parse_item_status status = Some st"
      and "prisma_findUnique item_id itemId (orderItems s) = Some item"
  shows "fst (updateOrderItemStatus sess itemId status s) = Inr (item\<lparr>item_status := st\<rparr>)
       \<and> orderItems (snd (updateOrderItemStatus sess itemId status s))
           = prisma_updateMany (\<lambda>x. item_id x = itemId) (\<lambda>r. r\<lparr>item_status := st\<rparr>) (orderItems s)"
proof -
  let ?its = "prisma_updateMany (\<lambda>x. item_id x = itemId) (\<lambda>r. r\<lparr>item_status := st\<rparr>) (orderItems s)"
  let ?s1 = "s\<lparr>orderItems := ?its\<rparr>"
  show ?thesis
  proof (cases "prisma_findUnique order_id (item_orderId item) (orders s)")
    case None
    with assms show ?thesis
      by (simp add: updateOrderItemStatus_def prisma_update_found)
  next
    case (Some order)
    from findUnique_own_key[OF Some]
    have "prisma_update order_id (order_id order) (\<lambda>r. r\<lparr>order_status := READY\<rparr>) (orders s)
            = Some (order\<lparr>order_status := READY\<rparr>,
                    prisma_updateMany (\<lambda>x. order_id x = order_id order)
                      (\<lambda>r. r\<lparr>order_status := READY\<rparr>) (orders s))"
      by (rule prisma_update_found)
    with assms Some show ?thesis
      by (simp add: updateOrderItemStatus_def prisma_update_found Let_def)
  qed
qed

text \<open>
  Claim C3, as the code has it. The handler validates only that the requested status is
  one of the four item statuses (\<open>Invalid400\<close> otherwise). For an existing item in any
  status and any requested status, forward, backward or skipping, the request succeeds
  and the item has the requested status afterwards; the move from \<open>PENDING\<close> to \<open>READY\<close>
  is one of them.
\<close>

theorem item_status_set_unchecked:
  assumes "has_user sess"
      and "prisma_findUnique item_id itemId (orderItems s) = Some item"
  shows "(\<forall>st. \<exists>s'. updateOrderItemStatus sess itemId (item_status_name st) s
                       = (Inr (item\<lparr>item_status := st\<rparr>), s')
                  \<and> prisma_findUnique item_id itemId (orderItems s')
                       = Some (item\<lparr>item_status := st\<rparr>))
       \<and> (parse_item_status status = None \<longrightarrow>
            updateOrderItemStatus sess itemId status s = (Inl Invalid400, s))"
proof (intro conjI allI impI)
  fix st
  let ?r = "updateOrderItemStatus sess itemId (item_status_name st) s"
  from updateOrderItemStatus_found[OF assms(1) parse_item_status_name assms(2), of st]
  have "fst ?r = Inr (item\<lparr>item_status := st\<rparr>)"
    and "orderItems (snd ?r)
           = prisma_updateMany (\<lambda>x. item_id x = itemId) (\<lambda>r. r\<lparr>item_status := st\<rparr>) (orderItems s)"
    by simp_all
  moreover have "prisma_findUnique item_id itemId
                   (prisma_updateMany (\<lambda>x. item_id x = itemId) (\<lambda>r. r\<lparr>item_status := st\<rparr>) (orderItems s))
                 = Some (item\<lparr>item_status := st\<rparr>)"
    using assms(2) by (simp add: findUnique_updateMany)
  ultimately have "?r = (Inr (item\<lparr>item_status := st\<rparr>), snd ?r)
                   \<and> prisma_findUnique item_id itemId (orderItems (snd ?r))
                       = Some (item\<lparr>item_status := st\<rparr>)"
    by (metis prod.collapse)
  then show "\<exists>s'. ?r = (Inr (item\<lparr>item_status := st\<rparr>), s')
                  \<and> prisma_findUnique item_id itemId (orderItems s')
                       = Some (item\<lparr>item_status := st\<rparr>)"
    by blast
next
  assume "parse_item_status status = None"
  with assms(1) show "updateOrderItemStatus sess itemId status s = (Inl Invalid400, s)"
    by (simp add: updateOrderItemStatus_def)
qed


theorem item_status_set_unchecked_witness:
  "has_user floor_staff
   \<and> map item_status (orderItems example_tableless_db) = [ITEM_SERVED]
   \<and> fst (updateOrderItemStatus floor_staff ''oi-1'' ''PREPARING'' example_tableless_db)
        = Inr \<lparr>item_id = ''oi-1'', item_orderId = ''order-1'', item_menuItemId = ''item-2'',
               item_quantity = 1, item_price = 5, item_status = ITEM_PREPARING\<rparr>
   \<and> parse_item_status ''DONE'' = None
   \<and> updateOrderItemStatus floor_staff ''oi-1'' ''DONE'' example_tableless_db
        = (Inl Invalid400, example_tableless_db)"
proof -
  let ?item = "\<lparr>item_id = ''oi-1'', item_orderId = ''order-1'', item_menuItemId = ''item-2'',
                item_quantity = 1, item_price = 5, item_status = ITEM_SERVED\<rparr>"
  have a: "has_user floor_staff"
    by (simp add: has_user_def floor_staff_def)
  have b: "prisma_findUnique item_id ''oi-1'' (orderItems example_tableless_db) = Some ?item"
    by (simp add: example_tableless_db_def eval_defs)
  have c: "parse_item_status ''DONE'' = None"
    by (simp add: parse_item_status_def)
  have d: "map item_status (orderItems example_tableless_db) = [ITEM_SERVED]"
    by (simp add: example_tableless_db_def)
  note T = item_status_set_unchecked [OF a b, of "''DONE''"]
  from T have "\<exists>s'. updateOrderItemStatus floor_staff ''oi-1'' (item_status_name ITEM_PREPARING)
                       example_tableless_db = (Inr (?item\<lparr>item_status := ITEM_PREPARING\<rparr>), s')"
    by blast
  then have e: "fst (updateOrderItemStatus floor_staff ''oi-1'' ''PREPARING'' example_tableless_db)
                  = Inr (?item\<lparr>item_status := ITEM_PREPARING\<rparr>)"
    by auto
  from T c have f: "updateOrderItemStatus floor_staff ''oi-1'' ''DONE'' example_tableless_db
                      = (Inl Invalid400, example_tableless_db)"
    by blast
  from a c d e f show ?thesis by simp
qed

text \<open>
  Claim C3, as stated, fails: a backward request (an item that is \<open>SERVED\<close> is set back
  to \<open>PENDING\<close>) and a skipping request (an item that is \<open>PENDING\<close> is set to \<open>SERVED\<close>)
  are both accepted and stored.
\<close>

theorem item_backward_and_skipped_accepted:
  "map item_status (orderItems example_tableless_db) = [ITEM_SERVED]
   \<and> fst (updateOrderItemStatus floor_staff ''oi-1'' ''PENDING'' example_tableless_db)
       = Inr \<lparr>item_id = ''oi-1'', item_orderId = ''order-1'', item_menuItemId = ''item-2'',
              item_quantity = 1, item_price = 5, item_status = ITEM_PENDING\<rparr>
   \<and> map item_status
        (orderItems (snd (updateOrderItemStatus floor_staff ''oi-1'' ''PENDING''
                            example_tableless_db)))
       = [ITEM_PENDING]
   \<and> map item_status (orderItems example_order_db) = [ITEM_PENDING, ITEM_PENDING]
   \<and> fst (updateOrderItemStatus floor_staff ''oi-1'' ''SERVED'' example_order_db)
       = Inr \<lparr>item_id = ''oi-1'', item_orderId = ''order-1'', item_menuItemId = ''item-1'',
              item_quantity = 2, item_price = 10, item_status = ITEM_SERVED\<rparr>
   \<and> map item_status
        (orderItems (snd (updateOrderItemStatus floor_staff ''oi-1'' ''SERVED''
                            example_order_db)))
       = [ITEM_SERVED, ITEM_PENDING]"
  by (simp add: example_order_db_eq example_tableless_db_def updateOrderItemStatus_def
                floor_staff_def eval_defs)


section \<open>Transactions of table updates\<close>

lemma table_ids_updateMany:
  assumes "\<And>r. table_id (f r) = table_id r"
  shows "map table_id (prisma_updateMany P f ts) = map table_id ts"
  using assms by (simp add: prisma_updateMany_def)

lemma table_update_eq:
  "table_update k f s =
     (if k \<in> table_id ` set (tables s)
      then Some (s\<lparr>tables := prisma_updateMany (\<lambda>r. table_id r = k) f (tables s)\<rparr>)
      else None)"
proof (cases "prisma_findUnique table_id k (tables s)")
  case None
  then show ?thesis
    using findUnique_None_iff[of table_id k "tables s"]
    by (simp add: table_update_def prisma_update_def)
next
  case (Some r)
  then show ?thesis
    using findUnique_SomeD[OF Some]
    by (auto simp: table_update_def prisma_update_def)
qed

text \<open>
  A transaction of table updates, each of which keeps the id of a row, succeeds exactly
  when every key names a row, and then changes each row by the updates that match it,
  in order.
\<close>

lemma transaction_table_updates:
  assumes "\<forall>(k, f) \<in> set kfs. \<forall>r. table_id (f r) = table_id r"
  shows "transaction (map (\<lambda>(k, f). table_update k f) kfs) s =
           (if fst ` set kfs \<subseteq> table_id ` set (tables s)
            then Some (s\<lparr>tables := map (\<lambda>r. foldl (\<lambda>r' (k, f). if table_id r' = k then f r' else r') r kfs)
                                      (tables s)\<rparr>)
            else None)"
  using assms
proof (induction kfs arbitrary: s)
  case Nil
  then show ?case by simp
next
  case (Cons kf kfs)
  obtain k f where kf: "kf = (k, f)" by (cases kf)
  from Cons.prems kf have keep: "\<And>r. table_id (f r) = table_id r"
    and rest: "\<forall>(k, f) \<in> set kfs. \<forall>r. table_id (f r) = table_id r"
    by auto
  show ?case
  proof (cases "k \<in> table_id ` set (tables s)")
    case False
    then show ?thesis by (simp add: kf table_update_eq)
  next
    case True
    let ?s1 = "s\<lparr>tables := prisma_updateMany (\<lambda>r. table_id r = k) f (tables s)\<rparr>"
    have "set (map table_id (tables ?s1)) = set (map table_id (tables s))"
      by (simp add: table_ids_updateMany[OF keep])
    then have ids: "table_id ` set (tables ?s1) = table_id ` set (tables s)"
      by (simp only: set_map)
    have step: "transaction (map (\<lambda>(k, f). table_update k f) (kf # kfs)) s
                  = transaction (map (\<lambda>(k, f). table_update k f) kfs) ?s1"
      using True by (simp add: kf table_update_eq)
    have fold: "map (\<lambda>r. foldl (\<lambda>r' (k, f). if table_id r' = k then f r' else r') r kfs) (tables ?s1)
                 = map (\<lambda>r. foldl (\<lambda>r' (k, f). if table_id r' = k then f r' else r') r (kf # kfs)) (tables s)"
      by (simp add: kf prisma_updateMany_def)
    show ?thesis
      unfolding step Cons.IH[OF rest, of ?s1] ids fold
      using True by (simp add: kf)
  qed
qed


section \<open>Merging tables\<close>

lemma foldl_link_others:
  assumes "\<And>r. table_id (g r) = table_id r" and "\<And>r. g (g r) = g r"
  shows "foldl (\<lambda>r' (k, f). if table_id r' = k then f r' else r') r (map (\<lambda>i. (i, g)) others)
           = (if table_id r \<in> set others then g r else r)"
  using assms by (induction others arbitrary: r) auto

text \<open>
  The writes of a merge as one function on rows: the primary becomes \<open>OCCUPIED\<close>, then
  every row whose id is among the others is linked to the primary and becomes \<open>OCCUPIED\<close>.
\<close>

lemma mergeTables_result:
  assumes "has_role sess [OWNER, SUPERVISOR, FLOOR_STAFF]"
      and "2 \<le> length (p # others)"
  shows "mergeTables sess (p # others) s =
           (if set (p # others) \<subseteq> table_id ` set (tables s)
            then (let s' = s\<lparr>tables :=
                            map (\<lambda>r. let r1 = (if table_id r = p then r\<lparr>table_status := OCCUPIED\<rparr> else r)
                                     in if table_id r \<in> set others
                                        then r1\<lparr>mergedWithId := Some p, table_status := OCCUPIED\<rparr>
                                        else r1)
                                (tables s)\<rparr>
                  in (Inr (filter (\<lambda>r. table_id r \<in> set (p # others)) (tables s')), s'))
            else (Inl Failed500, s))"
proof -
  let ?occ = "\<lambda>r::table_row. r\<lparr>table_status := OCCUPIED\<rparr>"
  let ?link = "\<lambda>r::table_row. r\<lparr>mergedWithId := Some p, table_status := OCCUPIED\<rparr>"
  let ?kfs = "(p, ?occ) # map (\<lambda>i. (i, ?link)) others"
  have ws: "table_update p ?occ # map (\<lambda>i. table_update i ?link) others
              = map (\<lambda>(k, f). table_update k f) ?kfs"
    by (simp add: comp_def)
  have keep: "\<forall>(k, f) \<in> set ?kfs. \<forall>r. table_id (f r) = table_id r"
    by auto
  have keys: "fst ` set ?kfs = set (p # others)"
    by (auto simp: image_iff)
  have row: "foldl (\<lambda>r' (k, f). if table_id r' = k then f r' else r') r ?kfs
               = (let r1 = (if table_id r = p then ?occ r else r)
                  in if table_id r \<in> set others then ?link r1 else r1)" for r
    by (simp add: foldl_link_others Let_def)
  have T: "transaction (table_update p ?occ # map (\<lambda>i. table_update i ?link) others) s
             = (if set (p # others) \<subseteq> table_id ` set (tables s)
                then Some (s\<lparr>tables :=
                            map (\<lambda>r. let r1 = (if table_id r = p then ?occ r else r)
                                     in if table_id r \<in> set others then ?link r1 else r1)
                                (tables s)\<rparr>)
                else None)"
    unfolding ws transaction_table_updates[OF keep] keys row ..
  show ?thesis
    using assms
    by (simp add: mergeTables_def mergeTablesSchema_def T Let_def del: transaction.simps)
qed


text \<open>
  Claim C7, as the code has it. A merge request with fewer than 2 ids is rejected by the
  schema (\<open>Invalid400\<close>) and changes nothing. A request with at least 2 ids, all of
  existing tables, succeeds whether or not some of them are already merged: the first
  id is the primary and becomes \<open>OCCUPIED\<close>, every other given table gets
  \<open>mergedWithId\<close> set to the primary and becomes \<open>OCCUPIED\<close>, and the tables that were
  not named are as before. There is no \<open>AlreadyMerged\<close> test.
\<close>

theorem merge_without_already_merged_check:
  assumes "has_role sess [OWNER, SUPERVISOR, FLOOR_STAFF]"
  shows "(length tableIds < 2 \<longrightarrow> mergeTables sess tableIds s = (Inl Invalid400, s))
       \<and> (\<forall>p others. tableIds = p # others \<and> others \<noteq> []
                       \<and> set tableIds \<subseteq> table_id ` set (tables s) \<longrightarrow>
            (\<exists>rows s'. mergeTables sess tableIds s = (Inr rows, s')
               \<and> map table_id (tables s') = map table_id (tables s)
               \<and> (\<forall>r \<in> set (tables s').
                     (table_id r = p \<longrightarrow> table_status r = OCCUPIED)
                   \<and> (table_id r \<in> set others \<longrightarrow>
                        mergedWithId r = Some p \<and> table_status r = OCCUPIED))
               \<and> (\<forall>i < length (tables s).
                     (table_id (tables s ! i) = p \<and> p \<notin> set others \<longrightarrow>
                        mergedWithId (tables s' ! i) = mergedWithId (tables s ! i))
                   \<and> (table_id (tables s ! i) \<notin> set tableIds \<longrightarrow>
                        tables s' ! i = tables s ! i))))"
proof (intro conjI allI impI)
  assume "length tableIds < 2"
  with assms show "mergeTables sess tableIds s = (Inl Invalid400, s)"
    by (simp add: mergeTables_def mergeTablesSchema_def)
next
  fix p others
  assume a: "tableIds = p # others \<and> others \<noteq> [] \<and> set tableIds \<subseteq> table_id ` set (tables s)"
  let ?row = "\<lambda>r. let r1 = (if table_id r = p then r\<lparr>table_status := OCCUPIED\<rparr> else r)
                   in if table_id r \<in> set others
                      then r1\<lparr>mergedWithId := Some p, table_status := OCCUPIED\<rparr>
                      else r1"
  let ?s' = "s\<lparr>tables := map ?row (tables s)\<rparr>"
  from a have len: "2 \<le> length (p # others)"
    by (cases others) simp_all
  from a have eq: "tableIds = p # others"
    and sub: "set (p # others) \<subseteq> table_id ` set (tables s)"
    by auto
  from sub mergeTables_result[OF assms len, of s]
  have res: "mergeTables sess tableIds s
               = (Inr (filter (\<lambda>r. table_id r \<in> set (p # others)) (tables ?s')), ?s')"
    unfolding eq by (simp add: Let_def)
  have ids: "map table_id (tables ?s') = map table_id (tables s)"
    by (simp add: Let_def)
  have rows: "\<forall>r \<in> set (tables ?s').
                     (table_id r = p \<longrightarrow> table_status r = OCCUPIED)
                   \<and> (table_id r \<in> set others \<longrightarrow>
                        mergedWithId r = Some p \<and> table_status r = OCCUPIED)"
    by (auto simp: Let_def)
  have frame: "\<forall>i < length (tables s).
                     (table_id (tables s ! i) = p \<and> p \<notin> set others \<longrightarrow>
                        mergedWithId (tables ?s' ! i) = mergedWithId (tables s ! i))
                   \<and> (table_id (tables s ! i) \<notin> set tableIds \<longrightarrow>
                        tables ?s' ! i = tables s ! i)"
    unfolding eq by (auto simp: Let_def)
  from res ids rows frame
  show "\<exists>rows s'. mergeTables sess tableIds s = (Inr rows, s')
               \<and> map table_id (tables s') = map table_id (tables s)
               \<and> (\<forall>r \<in> set (tables s').
                     (table_id r = p \<longrightarrow> table_status r = OCCUPIED)
                   \<and> (table_id r \<in> set others \<longrightarrow>
                        mergedWithId r = Some p \<and> table_status r = OCCUPIED))
               \<and> (\<forall>i < length (tables s).
                     (table_id (tables s ! i) = p \<and> p \<notin> set others \<longrightarrow>
                        mergedWithId (tables s' ! i) = mergedWithId (tables s ! i))
                   \<and> (table_id (tables s ! i) \<notin> set tableIds \<longrightarrow>
                        tables s' ! i = tables s ! i))"
    by blast
qed

lemma merge_already_merged_eval:
  "mergeTables owner [''table-3'', ''table-2''] example_merged_db
     = (Inr [\<lparr>table_id = ''table-2'', table_status = OCCUPIED, mergedWithId = Some ''table-3''\<rparr>,
             \<lparr>table_id = ''table-3'', table_status = OCCUPIED, mergedWithId = None\<rparr>],
        example_merged_db
          \<lparr>tables := [\<lparr>table_id = ''table-1'', table_status = OCCUPIED, mergedWithId = None\<rparr>,
                      \<lparr>table_id = ''table-2'', table_status = OCCUPIED,
                       mergedWithId = Some ''table-3''\<rparr>,
                      \<lparr>table_id = ''table-3'', table_status = OCCUPIED, mergedWithId = None\<rparr>]\<rparr>)"
  by (simp add: example_merged_db_eq mergeTables_def eval_defs)

theorem merge_without_already_merged_check_witness:
  "has_role owner [OWNER, SUPERVISOR, FLOOR_STAFF]
   \<and> mergeTables owner [''table-1''] example_merged_db = (Inl Invalid400, example_merged_db)
   \<and> set [''table-3'', ''table-2''] \<subseteq> table_id ` set (tables example_merged_db)
   \<and> map mergedWithId (tables example_merged_db) = [None, Some ''table-1'', None]
   \<and> (\<exists>rows s'. mergeTables owner [''table-3'', ''table-2''] example_merged_db = (Inr rows, s')
         \<and> (\<forall>r \<in> set (tables s').
               (table_id r = ''table-3'' \<longrightarrow> table_status r = OCCUPIED)
             \<and> (table_id r \<in> set [''table-2''] \<longrightarrow>
                  mergedWithId r = Some ''table-3'' \<and> table_status r = OCCUPIED)))"
proof -
  have a: "has_role owner [OWNER, SUPERVISOR, FLOOR_STAFF]"
    by (simp add: eval_defs)
  have b: "length [''table-1''] < 2"
    by simp
  have c: "[''table-3'', ''table-2''] = ''table-3'' # [''table-2''] \<and> [''table-2''] \<noteq> []
           \<and> set [''table-3'', ''table-2''] \<subseteq> table_id ` set (tables example_merged_db)"
    by (simp add: example_merged_db_eq)
  have d: "map mergedWithId (tables example_merged_db) = [None, Some ''table-1'', None]"
    by (simp add: example_merged_db_eq)
  from merge_without_already_merged_check [OF a, of "[''table-1'']" example_merged_db] b
  have e: "mergeTables owner [''table-1''] example_merged_db = (Inl Invalid400, example_merged_db)"
    by blast
  from merge_without_already_merged_check [OF a, of "[''table-3'', ''table-2'']" example_merged_db] c
  obtain rows s' where
    r: "mergeTables owner [''table-3'', ''table-2''] example_merged_db = (Inr rows, s')" and
    f: "\<forall>r \<in> set (tables s').
         (table_id r = ''table-3'' \<longrightarrow> table_status r = OCCUPIED)
       \<and> (table_id r \<in> set [''table-2''] \<longrightarrow>
            mergedWithId r = Some ''table-3'' \<and> table_status r = OCCUPIED)"
    by blast
  from r f a c d e show ?thesis by blast
qed

text \<open>
  Claim C7, as stated, fails: table 2 is already merged into table 1, and a request to
  merge tables 3 and 2 is not rejected with \<open>AlreadyMerged\<close>; it succeeds and re-links
  table 2 to table 3.
\<close>

theorem merge_of_merged_table_accepted:
  "map mergedWithId (tables example_merged_db) = [None, Some ''table-1'', None]
   \<and> fst (mergeTables owner [''table-3'', ''table-2''] example_merged_db)
       = Inr [\<lparr>table_id = ''table-2'', table_status = OCCUPIED, mergedWithId = Some ''table-3''\<rparr>,
              \<lparr>table_id = ''table-3'', table_status = OCCUPIED, mergedWithId = None\<rparr>]
   \<and> map mergedWithId
        (tables (snd (mergeTables owner [''table-3'', ''table-2''] example_merged_db)))
       = [None, Some ''table-3'', None]"
  by (simp add: merge_already_merged_eval) (simp add: example_merged_db_eq)


section \<open>The star-merge invariant\<close>

text \<open>
  A write that keeps the id of every row and either keeps or clears its merge link
  cannot break the invariant.
\<close>

lemma star_unlinking:
  assumes "star_merge_inv s"
      and "tables s' = map g (tables s)"
      and "\<forall>r \<in> set (tables s). table_id (g r) = table_id r
              \<and> (mergedWithId (g r) = None \<or> mergedWithId (g r) = mergedWithId r)"
  shows "star_merge_inv s'"
  unfolding star_merge_inv_def
proof (intro ballI impI)
  fix t' u'
  assume t': "t' \<in> set (tables s')" and m: "mergedWithId t' \<noteq> None"
    and u': "u' \<in> set (tables s')" and ne: "table_id u' \<noteq> table_id t'"
  from t' assms(2) obtain t where t: "t \<in> set (tables s)" "t' = g t" by auto
  from u' assms(2) obtain u where u: "u \<in> set (tables s)" "u' = g u" by auto
  from assms(3) t m have tm: "mergedWithId t \<noteq> None" "table_id t' = table_id t" by auto
  from assms(3) u have um: "mergedWithId u' = None \<or> mergedWithId u' = mergedWithId u"
    and ui: "table_id u' = table_id u" by auto
  from assms(1) t(1) u(1) tm(1) ne tm(2) ui
  have "mergedWithId u \<noteq> Some (table_id t)"
    by (simp add: star_merge_inv_def)
  with um tm(2) show "mergedWithId u' \<noteq> Some (table_id t')"
    by auto
qed

lemma foldl_unlinking:
  assumes "\<forall>(k, f) \<in> set kfs. \<forall>r. table_id (f r) = table_id r
              \<and> (mergedWithId (f r) = None \<or> mergedWithId (f r) = mergedWithId r)"
  shows "table_id (foldl (\<lambda>r' (k, f). if table_id r' = k then f r' else r') r kfs) = table_id r
       \<and> (mergedWithId (foldl (\<lambda>r' (k, f). if table_id r' = k then f r' else r') r kfs) = None
          \<or> mergedWithId (foldl (\<lambda>r' (k, f). if table_id r' = k then f r' else r') r kfs)
               = mergedWithId r)"
  using assms
proof (induction kfs arbitrary: r)
  case Nil
  then show ?case by simp
next
  case (Cons kf kfs)
  obtain k f where kf: "kf = (k, f)" by (cases kf)
  let ?r1 = "if table_id r = k then f r else r"
  from Cons.prems kf have f: "table_id (f r) = table_id r"
      "mergedWithId (f r) = None \<or> mergedWithId (f r) = mergedWithId r"
    and rest: "\<forall>(k, f) \<in> set kfs. \<forall>r. table_id (f r) = table_id r
              \<and> (mergedWithId (f r) = None \<or> mergedWithId (f r) = mergedWithId r)"
    by auto
  from f have r1: "table_id ?r1 = table_id r"
      "mergedWithId ?r1 = None \<or> mergedWithId ?r1 = mergedWithId r"
    by auto
  from Cons.IH[OF rest, of ?r1] r1 show ?case
    by (auto simp: kf)
qed

lemma star_unmergeTables:
  assumes "star_merge_inv s"
  shows "star_merge_inv (snd (unmergeTables sess tableId s))"
proof (cases "has_role sess [OWNER, SUPERVISOR, FLOOR_STAFF]")
  case False
  with assms show ?thesis by (simp add: unmergeTables_def)
next
  case True
  show ?thesis
  proof (cases "truthy_string tableId")
    case None
    with assms True show ?thesis by (simp add: unmergeTables_def)
  next
    case (Some t)
    let ?clear = "\<lambda>r::table_row. r\<lparr>mergedWithId := None, table_status := VACANT\<rparr>"
    let ?vac = "\<lambda>r::table_row. r\<lparr>table_status := VACANT\<rparr>"
    let ?kfs = "map (\<lambda>table. (table_id table, ?clear))
                    (filter (\<lambda>r. mergedWithId r = Some t) (tables s)) @ [(t, ?vac)]"
    let ?g = "\<lambda>r. foldl (\<lambda>r' (k, f). if table_id r' = k then f r' else r') r ?kfs"
    have ws: "map (\<lambda>table. table_update (table_id table) ?clear)
                  (filter (\<lambda>r. mergedWithId r = Some t) (tables s)) @ [table_update t ?vac]
                = map (\<lambda>(k, f). table_update k f) ?kfs"
      by (simp add: comp_def)
    have keep: "\<forall>(k, f) \<in> set ?kfs. \<forall>r. table_id (f r) = table_id r"
      by auto
    have unl: "\<forall>(k, f) \<in> set ?kfs. \<forall>r. table_id (f r) = table_id r
              \<and> (mergedWithId (f r) = None \<or> mergedWithId (f r) = mergedWithId r)"
      by auto
    have T: "transaction (map (\<lambda>table. table_update (table_id table) ?clear)
                  (filter (\<lambda>r. mergedWithId r = Some t) (tables s)) @ [table_update t ?vac]) s
              = (if fst ` set ?kfs \<subseteq> table_id ` set (tables s)
                 then Some (s\<lparr>tables := map ?g (tables s)\<rparr>) else None)"
      unfolding ws transaction_table_updates[OF keep] ..
    have res: "snd (unmergeTables sess tableId s) = s
               \<or> snd (unmergeTables sess tableId s) = s\<lparr>tables := map ?g (tables s)\<rparr>"
      using True Some by (simp add: unmergeTables_def Let_def T del: transaction.simps)
    have "star_merge_inv (s\<lparr>tables := map ?g (tables s)\<rparr>)"
    proof (rule star_unlinking[OF assms])
      show "tables (s\<lparr>tables := map ?g (tables s)\<rparr>) = map ?g (tables s)" by simp
      show "\<forall>r \<in> set (tables s). table_id (?g r) = table_id r
              \<and> (mergedWithId (?g r) = None \<or> mergedWithId (?g r) = mergedWithId r)"
        using foldl_unlinking[OF unl] by blast
    qed
    with res assms show ?thesis by auto
  qed
qed


lemma tables_processPayment:
  "tables (snd (processPayment pid sess body s)) = tables s
   \<or> (\<exists>t. tables (snd (processPayment pid sess body s))
            = prisma_updateMany (\<lambda>r. mergedWithId r = Some t)
                (\<lambda>r. r\<lparr>mergedWithId := None, table_status := VACANT\<rparr>)
                (prisma_updateMany (\<lambda>r. table_id r = t)
                   (\<lambda>r. r\<lparr>table_status := VACANT\<rparr>) (tables s)))"
  by (auto simp: processPayment_def Let_def dest!: prisma_update_SomeD
           split: option.splits prod.splits)

lemma star_processPayment:
  assumes "star_merge_inv s"
  shows "star_merge_inv (snd (processPayment pid sess body s))"
proof -
  let ?s' = "snd (processPayment pid sess body s)"
  from tables_processPayment[of pid sess body s]
  consider "tables ?s' = tables s"
    | t where "tables ?s' = map (\<lambda>r. let r1 = (if table_id r = t then r\<lparr>table_status := VACANT\<rparr> else r)
                                     in if mergedWithId r1 = Some t
                                        then r1\<lparr>mergedWithId := None, table_status := VACANT\<rparr>
                                        else r1) (tables s)"
    by (auto simp: prisma_updateMany_def Let_def comp_def)
  then show ?thesis
  proof cases
    case 1
    with assms show ?thesis by (simp add: star_merge_inv_def)
  next
    case (2 t)
    show ?thesis
      by (rule star_unlinking[OF assms 2]) (auto simp: Let_def)
  qed
qed

lemma updateTableSchema_snd:
  "updateTableSchema body = Some d \<Longrightarrow> snd d = treq_mergedWithId body"
  by (auto simp: updateTableSchema_def split: option.splits)

lemma tables_updateTable:
  "tables (snd (updateTable fk sess body s)) = tables s
   \<or> (\<exists>i d. snd d = treq_mergedWithId body
          \<and> tables (snd (updateTable fk sess body s))
              = map (\<lambda>r. if table_id r = i then table_data d r else r) (tables s))"
proof (cases "truthy_string (treq_id body)")
  case None
  then show ?thesis by (simp add: updateTable_def)
next
  case (Some i)
  show ?thesis
  proof (cases "updateTableSchema body")
    case None
    with Some show ?thesis by (simp add: updateTable_def)
  next
    case (Some d)
    note d = this updateTableSchema_snd[OF this]
    show ?thesis
    proof (cases "prisma_findUnique table_id i (tables s)")
      case None
      with \<open>truthy_string (treq_id body) = Some i\<close> d(1) show ?thesis
        by (simp add: updateTable_def prisma_update_def)
    next
      case (Some r)
      have "tables (snd (updateTable fk sess body s)) = tables s
            \<or> tables (snd (updateTable fk sess body s))
                = map (\<lambda>r. if table_id r = i then table_data d r else r) (tables s)"
        using \<open>truthy_string (treq_id body) = Some i\<close> d(1) Some
        by (simp add: updateTable_def prisma_update_def prisma_updateMany_def)
      with d(2) show ?thesis by blast
    qed
  qed
qed

lemma star_updateTable:
  assumes "star_merge_inv s"
      and "treq_mergedWithId body = None \<or> treq_mergedWithId body = Some None"
  shows "star_merge_inv (snd (updateTable fk sess body s))"
proof -
  let ?s' = "snd (updateTable fk sess body s)"
  from tables_updateTable[of fk sess body s]
  consider "tables ?s' = tables s"
    | i d where "snd d = treq_mergedWithId body"
        "tables ?s' = map (\<lambda>r. if table_id r = i then table_data d r else r) (tables s)"
    by blast
  then show ?thesis
  proof cases
    case 1
    with assms(1) show ?thesis by (simp add: star_merge_inv_def)
  next
    case 2
    show ?thesis
      by (rule star_unlinking[OF assms(1) 2(2)])
         (use assms(2) 2(1) in \<open>auto simp: table_data_def Let_def split: option.splits\<close>)
  qed
qed

lemma star_mergeTables:
  assumes "star_merge_inv s"
      and "p \<notin> set others"
      and "\<forall>r \<in> set (tables s). (table_id r = p \<longrightarrow> mergedWithId r = None)
              \<and> (\<forall>x \<in> set others. mergedWithId r \<noteq> Some x)"
  shows "star_merge_inv (snd (mergeTables sess (p # others) s))"
proof (cases "has_role sess [OWNER, SUPERVISOR, FLOOR_STAFF] \<and> 2 \<le> length (p # others)
              \<and> set (p # others) \<subseteq> table_id ` set (tables s)")
  case False
  then have "snd (mergeTables sess (p # others) s) = s"
    using mergeTables_result[of sess p others s]
    by (auto simp: mergeTables_def mergeTablesSchema_def)
  with assms(1) show ?thesis by simp
next
  case True
  let ?row = "\<lambda>r. let r1 = (if table_id r = p then r\<lparr>table_status := OCCUPIED\<rparr> else r)
                   in if table_id r \<in> set others
                      then r1\<lparr>mergedWithId := Some p, table_status := OCCUPIED\<rparr>
                      else r1"
  from True mergeTables_result[of sess p others s]
  have s': "tables (snd (mergeTables sess (p # others) s)) = map ?row (tables s)"
    by (simp add: Let_def)
  show ?thesis
    unfolding star_merge_inv_def s'
  proof (intro ballI impI)
    fix t' u'
    assume t': "t' \<in> set (map ?row (tables s))" and m: "mergedWithId t' \<noteq> None"
      and u': "u' \<in> set (map ?row (tables s))" and ne: "table_id u' \<noteq> table_id t'"
    from t' obtain t where t: "t \<in> set (tables s)" "t' = ?row t" by auto
    from u' obtain u where u: "u \<in> set (tables s)" "u' = ?row u" by auto
    have idt: "table_id t' = table_id t" and idu: "table_id u' = table_id u"
      by (simp_all add: t u Let_def)
    show "mergedWithId u' \<noteq> Some (table_id t')"
    proof (cases "table_id u \<in> set others")
      case True
      then have lu: "mergedWithId u' = Some p" by (simp add: u Let_def)
      show ?thesis
      proof
        assume "mergedWithId u' = Some (table_id t')"
        with lu idt have "table_id t = p" by simp
        with assms(2,3) t(1) have "mergedWithId t' = None"
          by (simp add: t(2) Let_def)
        with m show False by simp
      qed
    next
      case False
      then have lu: "mergedWithId u' = mergedWithId u" by (simp add: u Let_def)
      show ?thesis
      proof (cases "table_id t \<in> set others")
        case True
        with assms(3) u(1) have "mergedWithId u \<noteq> Some (table_id t)" by blast
        with lu idt show ?thesis by simp
      next
        case False
        then have "mergedWithId t' = mergedWithId t" by (simp add: t(2) Let_def)
        with m have "mergedWithId t \<noteq> None" by simp
        with assms(1) t(1) u(1) ne idt idu have "mergedWithId u \<noteq> Some (table_id t)"
          by (simp add: star_merge_inv_def)
        with lu idt show ?thesis by simp
      qed
    qed
  qed
qed

text \<open>
  Claim C6, as the code has it. Unmerge and Settle keep the star-merge invariant, and so
  does a table update that carries no merge link. A merge keeps it when its primary is
  not among the other ids and has no \<open>mergedWithId\<close>, and no table is merged into one of
  the other given tables. The merge handler tests none of this.
\<close>

theorem star_merge_kept_by_safe_requests:
  assumes "star_merge_inv s"
      and "star_safe x s"
  shows "star_merge_inv (run_table_op fk x s)"
proof (cases x)
  case (Merge sess tableIds)
  show ?thesis
  proof (cases tableIds)
    case Nil
    with assms(1) Merge show ?thesis
      by (simp add: mergeTables_def mergeTablesSchema_def)
  next
    case (Cons p others)
    with assms Merge show ?thesis
      by (simp add: star_mergeTables)
  qed
next
  case (Unmerge sess tableId)
  with assms(1) show ?thesis by (simp add: star_unmergeTables)
next
  case (UpdateStatus sess body)
  with assms show ?thesis by (simp add: star_updateTable)
next
  case (Settle pid sess body)
  with assms(1) show ?thesis by (simp add: star_processPayment)
qed


theorem star_merge_kept_by_safe_requests_witness:
  "star_merge_inv example_merged_db
   \<and> star_safe (Merge owner [''table-1'', ''table-3'']) example_merged_db
   \<and> star_merge_inv (run_table_op True (Merge owner [''table-1'', ''table-3'']) example_merged_db)
   \<and> map mergedWithId
        (tables (run_table_op True (Merge owner [''table-1'', ''table-3'']) example_merged_db))
       = [None, Some ''table-1'', Some ''table-1'']"
proof -
  have a: "star_merge_inv example_merged_db"
    by (simp add: star_merge_inv_def example_merged_db_eq)
  have b: "star_safe (Merge owner [''table-1'', ''table-3'']) example_merged_db"
    by (simp add: example_merged_db_eq)
  have c: "map mergedWithId
             (tables (run_table_op True (Merge owner [''table-1'', ''table-3'']) example_merged_db))
           = [None, Some ''table-1'', Some ''table-1'']"
    by (simp add: example_merged_db_eq mergeTables_def eval_defs)
  from star_merge_kept_by_safe_requests [OF a b, of True] a b c
  show ?thesis by simp
qed

text \<open>
  Claim C6, as stated, fails: from the seeded tables, which satisfy the invariant, two
  merge requests build a chain. After them table 2 is merged into table 1 and is itself
  the merge target of table 3.
\<close>

theorem star_merge_chain_reachable:
  "star_merge_inv example_db
   \<and> map mergedWithId
        (tables (run_table_ops True
                   [Merge owner [''table-1'', ''table-2''],
                    Merge owner [''table-2'', ''table-3'']] example_db))
       = [None, Some ''table-1'', Some ''table-2'']
   \<and> \<not> star_merge_inv
         (run_table_ops True
            [Merge owner [''table-1'', ''table-2''],
             Merge owner [''table-2'', ''table-3'']] example_db)"
  by (simp add: star_merge_inv_def run_table_ops_def example_db_def mergeTables_def
                owner_def has_role_def mergeTablesSchema_def table_update_def
                prisma_update_def prisma_findUnique_def prisma_updateMany_def)


section \<open>The stored total\<close>

lemma foldl_add_sum_list:
  "foldl (\<lambda>sum x. sum + h x) (a::rat) xs = a + sum_list (map h xs)"
  by (induction xs arbitrary: a) (simp_all add: add.assoc)

lemma items_subtotal_sum_list:
  "items_subtotal items = sum_list (map (\<lambda>i. item_price i * of_int (item_quantity i)) items)"
  by (simp add: items_subtotal_def foldl_add_sum_list)

lemma createOrderSchema_SomeD:
  "createOrderSchema body = Some (tableId, items) \<Longrightarrow>
     tableId = oreq_tableId body \<and> items = oreq_items body \<and> tableId \<noteq> [] \<and> items \<noteq> []
     \<and> (\<forall>item \<in> set items. ireq_menuItemId item \<noteq> [] \<and> positive_int (ireq_quantity item))"
  by (auto simp: createOrderSchema_def list_all_iff split: if_splits)

text \<open>What a successful create request has written.\<close>

lemma createOrder_InrD:
  assumes "createOrder fk cuid sess body s = (Inr (order, created), s')"
  shows "\<exists>tableId items.
           createOrderSchema body = Some (tableId, items)
         \<and> totalAmount order
             = foldl (\<lambda>sum item. sum + menuItemPrices s (map ireq_menuItemId items)
                                        (ireq_menuItemId item) * ireq_quantity item) 0 items
         \<and> order_id order = cuid 0
         \<and> created = map (\<lambda>(k, item).
                                \<lparr>item_id = cuid (Suc k), item_orderId = cuid 0,
                                 item_menuItemId = ireq_menuItemId item,
                                 item_quantity = \<lfloor>ireq_quantity item\<rfloor>,
                                 item_price = menuItemPrices s (map ireq_menuItemId items)
                                                (ireq_menuItemId item),
                                 item_status = ITEM_PENDING\<rparr>)
                              (enumerate 0 items)
         \<and> orders s' = orders s @ [order]
         \<and> orderItems s' = orderItems s @ created"
  using assms
  by (auto simp: createOrder_def Let_def split: if_splits option.splits prod.splits)

lemma createOrder_total:
  assumes "createOrder fk cuid sess body s = (Inr (order, created), s')"
  shows "totalAmount order = items_subtotal created"
proof -
  from createOrder_InrD[OF assms] obtain tableId items where
    sc: "createOrderSchema body = Some (tableId, items)" and
    tot: "totalAmount order
             = foldl (\<lambda>sum item. sum + menuItemPrices s (map ireq_menuItemId items)
                                        (ireq_menuItemId item) * ireq_quantity item) 0 items" and
    cr: "created = map (\<lambda>(k, item).
                                \<lparr>item_id = cuid (Suc k), item_orderId = cuid 0,
                                 item_menuItemId = ireq_menuItemId item,
                                 item_quantity = \<lfloor>ireq_quantity item\<rfloor>,
                                 item_price = menuItemPrices s (map ireq_menuItemId items)
                                                (ireq_menuItemId item),
                                 item_status = ITEM_PENDING\<rparr>)
                              (enumerate 0 items)"
    by blast
  let ?price = "menuItemPrices s (map ireq_menuItemId items)"
  from createOrderSchema_SomeD[OF sc]
  have q: "\<forall>item \<in> set items. of_int \<lfloor>ireq_quantity item\<rfloor> = ireq_quantity item"
    by (simp add: positive_int_def)
  let ?line = "\<lambda>item. ?price (ireq_menuItemId item) * of_int \<lfloor>ireq_quantity item\<rfloor>"
  have "items_subtotal created = sum_list (map (\<lambda>p. ?line (snd p)) (enumerate 0 items))"
    unfolding items_subtotal_sum_list cr
    by (simp add: comp_def case_prod_unfold)
  also have "map (\<lambda>p. ?line (snd p)) (enumerate 0 items) = map ?line (map snd (enumerate 0 items))"
    by (simp only: map_map comp_def)
  also have "map snd (enumerate 0 items) = items"
    by (rule map_snd_enumerate)
  also have "map ?line items
               = map (\<lambda>item. ?price (ireq_menuItemId item) * ireq_quantity item) items"
  proof (rule map_cong[OF refl])
    fix item
    assume "item \<in> set items"
    with q have "of_int \<lfloor>ireq_quantity item\<rfloor> = ireq_quantity item"
      by blast
    then show "?line item = ?price (ireq_menuItemId item) * ireq_quantity item"
      by (simp only:)
  qed
  also have "sum_list (map (\<lambda>item. ?price (ireq_menuItemId item) * ireq_quantity item) items)
               = totalAmount order"
    unfolding tot by (simp add: foldl_add_sum_list)
  finally show ?thesis by simp
qed

lemma createOrder_stored_total:
  assumes "createOrder fk cuid sess body s = (Inr (order, created), s')"
      and "cuid 0 \<notin> order_id ` set (orders s)"
      and "cuid 0 \<notin> item_orderId ` set (orderItems s)"
  shows "stored_total s' (cuid 0) = Some (order_subtotal s' (cuid 0))"
proof -
  from createOrder_InrD[OF assms(1)] have
    oid: "order_id order = cuid 0" and
    os: "orders s' = orders s @ [order]" and
    its: "orderItems s' = orderItems s @ created" and
    cr: "\<forall>i \<in> set created. item_orderId i = cuid 0"
    by auto
  from assms(2) have "prisma_findUnique order_id (cuid 0) (orders s) = None"
    by (simp add: findUnique_None_iff)
  with oid have f: "prisma_findUnique order_id (cuid 0) (orders s') = Some order"
    by (simp add: os findUnique_append) (simp add: prisma_findUnique_def)
  from assms(3) have "filter (\<lambda>i. item_orderId i = cuid 0) (orderItems s) = []"
    by (force simp: filter_empty_conv)
  moreover from cr have "filter (\<lambda>i. item_orderId i = cuid 0) created = created"
    by (simp add: filter_id_conv)
  ultimately have "order_items s' (cuid 0) = created"
    by (simp add: order_items_def its)
  with f createOrder_total[OF assms(1)] show ?thesis
    by (simp add: stored_total_def order_subtotal_def)
qed


lemma findUnique_obtain:
  assumes "k \<in> key ` set rows"
  obtains r where "prisma_findUnique key k rows = Some r"
  using assms findUnique_None_iff[of key k rows]
  by (cases "prisma_findUnique key k rows") auto

lemma stored_total_updateMany:
  assumes "oid \<in> order_id ` set (orders s)"
  shows "stored_total
           (s\<lparr>orderItems := its,
              orders := prisma_updateMany (\<lambda>r. order_id r = oid) (\<lambda>r. r\<lparr>totalAmount := v\<rparr>)
                          (orders s)\<rparr>) oid = Some v"
proof -
  from assms obtain order where "prisma_findUnique order_id oid (orders s) = Some order"
    by (rule findUnique_obtain)
  then show ?thesis
    by (simp add: stored_total_def findUnique_updateMany)
qed

lemma addOrderItem_stored_total:
  assumes "addOrderItem fk iid sess oid body s = (Inr item, s')"
      and "oid \<in> order_id ` set (orders s)"
  shows "stored_total s' oid = Some (order_subtotal s' oid)"
proof -
  from assms(2) obtain order where f: "prisma_findUnique order_id oid (orders s) = Some order"
    by (rule findUnique_obtain)
  with assms(1) have
    "s' = s\<lparr>orderItems := orderItems s @ [item],
            orders := prisma_updateMany (\<lambda>r. order_id r = oid)
                        (\<lambda>r. r\<lparr>totalAmount :=
                                  items_subtotal (order_items (s\<lparr>orderItems := orderItems s @ [item]\<rparr>) oid)\<rparr>)
                        (orders s)\<rparr>"
    by (auto simp: addOrderItem_def Let_def prisma_update_def
             split: if_splits option.splits prod.splits)
  then have "stored_total s' oid
               = Some (items_subtotal (order_items (s\<lparr>orderItems := orderItems s @ [item]\<rparr>) oid))"
    and "order_items s' oid = order_items (s\<lparr>orderItems := orderItems s @ [item]\<rparr>) oid"
    using stored_total_updateMany[OF assms(2)] by (simp_all add: order_items_def)
  then show ?thesis by (simp add: order_subtotal_def)
qed

lemma removeOrderItem_stored_total:
  assumes "removeOrderItem sess oid itemId s = (Inr u, s')"
      and "oid \<in> order_id ` set (orders s)"
  shows "stored_total s' oid = Some (order_subtotal s' oid)"
proof -
  let ?its = "filter (\<lambda>i. item_id i \<noteq> itemId) (orderItems s)"
  from assms(2) obtain order where f: "prisma_findUnique order_id oid (orders s) = Some order"
    by (rule findUnique_obtain)
  with assms(1) have
    "s' = s\<lparr>orderItems := ?its,
            orders := prisma_updateMany (\<lambda>r. order_id r = oid)
                        (\<lambda>r. r\<lparr>totalAmount := items_subtotal (order_items (s\<lparr>orderItems := ?its\<rparr>) oid)\<rparr>)
                        (orders s)\<rparr>"
    by (auto simp: removeOrderItem_def Let_def prisma_update_def
             split: if_splits option.splits prod.splits)
  then have "stored_total s' oid = Some (items_subtotal (order_items (s\<lparr>orderItems := ?its\<rparr>) oid))"
    and "order_items s' oid = order_items (s\<lparr>orderItems := ?its\<rparr>) oid"
    using stored_total_updateMany[OF assms(2)] by (simp_all add: order_items_def)
  then show ?thesis by (simp add: order_subtotal_def)
qed

lemma removeDiscount_InrD:
  assumes "removeDiscount sess orderId s = (Inr res, s')"
  shows "\<exists>oid order. truthy_string orderId = Some oid
           \<and> prisma_findUnique order_id oid (orders s) = Some order
           \<and> s' = s\<lparr>orders := prisma_updateMany (\<lambda>r. order_id r = oid)
                           (\<lambda>r. r\<lparr>discountType := None, discountValue := None,
                                   discountReason := None, discountAppliedBy := None,
                                   totalAmount := items_subtotal (order_items s oid)\<rparr>)
                           (orders s)\<rparr>"
proof -
  from assms obtain oid where o: "truthy_string orderId = Some oid"
    by (cases "truthy_string orderId") (auto simp: removeDiscount_def split: if_splits)
  with assms obtain order where f: "prisma_findUnique order_id oid (orders s) = Some order"
    by (cases "prisma_findUnique order_id oid (orders s)")
       (auto simp: removeDiscount_def split: if_splits)
  from findUnique_SomeD[OF f] have "order_id order = oid" by simp
  with assms o f show ?thesis
    by (auto simp: removeDiscount_def Let_def split: if_splits)
qed

lemma removeDiscount_stored_total:
  assumes "removeDiscount sess (Some oid) s = (Inr res, s')"
  shows "stored_total s' oid = Some (order_subtotal s' oid)"
proof -
  from removeDiscount_InrD[OF assms] obtain order where
    f: "prisma_findUnique order_id oid (orders s) = Some order" and
    s': "s' = s\<lparr>orders := prisma_updateMany (\<lambda>r. order_id r = oid)
                           (\<lambda>r. r\<lparr>discountType := None, discountValue := None,
                                   discountReason := None, discountAppliedBy := None,
                                   totalAmount := items_subtotal (order_items s oid)\<rparr>)
                           (orders s)\<rparr>"
    by (auto simp: truthy_string_Some_iff)
  show ?thesis
    unfolding s' using f
    by (simp add: stored_total_def order_subtotal_def order_items_def findUnique_updateMany)
qed

lemma applyDiscount_InrD:
  assumes "applyDiscount sess body s = (Inr res, s')"
  shows "\<exists>oid dType v order.
           truthy_string (dreq_orderId body) = Some oid
         \<and> truthy_string (dreq_discountType body) = Some dType
         \<and> dreq_discountValue body = Some v
         \<and> prisma_findUnique order_id oid (orders s) = Some order
         \<and> s' = s\<lparr>orders := prisma_updateMany (\<lambda>r. order_id r = oid)
                   (\<lambda>r. r\<lparr>discountType := Some dType, discountValue := Some v,
                           discountReason := truthy_string (dreq_discountReason body),
                           discountAppliedBy := Some (session_user_id sess),
                           totalAmount :=
                             max 0 (items_subtotal (order_items s oid)
                                    - min (if dType = ''PERCENTAGE''
                                           then (items_subtotal (order_items s oid) * v) / 100
                                           else if dType = ''FIXED'' then v else 0)
                                          (items_subtotal (order_items s oid)))\<rparr>)
                   (orders s)\<rparr>"
proof -
  from assms obtain oid where o: "truthy_string (dreq_orderId body) = Some oid"
    by (cases "truthy_string (dreq_orderId body)")
       (auto simp: applyDiscount_def split: if_splits)
  from assms o obtain dType where d: "truthy_string (dreq_discountType body) = Some dType"
    by (cases "truthy_string (dreq_discountType body)")
       (auto simp: applyDiscount_def split: if_splits)
  from assms o d obtain v where v: "dreq_discountValue body = Some v"
    by (cases "dreq_discountValue body") (auto simp: applyDiscount_def split: if_splits)
  from assms o d v obtain order where f: "prisma_findUnique order_id oid (orders s) = Some order"
    by (cases "prisma_findUnique order_id oid (orders s)")
       (auto simp: applyDiscount_def split: if_splits)
  from findUnique_SomeD[OF f] have "order_id order = oid" by simp
  with assms o d v f show ?thesis
    by (auto simp: applyDiscount_def Let_def split: if_splits)
qed

lemma applyDiscount_stored_total:
  assumes "applyDiscount sess body s = (Inr res, s')"
      and "dreq_orderId body = Some oid"
      and "dreq_discountType body = Some ''FIXED'' \<or> dreq_discountType body = Some ''PERCENTAGE''"
  shows "\<exists>order'. prisma_findUnique order_id oid (orders s') = Some order'
           \<and> totalAmount order'
               = order_subtotal s' oid - spec_DiscountAmount order' (order_subtotal s' oid)"
proof -
  from applyDiscount_InrD[OF assms(1)] assms(2) obtain dType v order where
    d: "truthy_string (dreq_discountType body) = Some dType" and
    f: "prisma_findUnique order_id oid (orders s) = Some order" and
    s': "s' = s\<lparr>orders := prisma_updateMany (\<lambda>r. order_id r = oid)
                   (\<lambda>r. r\<lparr>discountType := Some dType, discountValue := Some v,
                           discountReason := truthy_string (dreq_discountReason body),
                           discountAppliedBy := Some (session_user_id sess),
                           totalAmount :=
                             max 0 (items_subtotal (order_items s oid)
                                    - min (if dType = ''PERCENTAGE''
                                           then (items_subtotal (order_items s oid) * v) / 100
                                           else if dType = ''FIXED'' then v else 0)
                                          (items_subtotal (order_items s oid)))\<rparr>)
                   (orders s)\<rparr>"
    by (auto simp: truthy_string_Some_iff)
  from d assms(3) have ty: "dType = ''FIXED'' \<or> dType = ''PERCENTAGE''"
    by (auto simp: truthy_string_Some_iff)
  have sub: "order_subtotal s' oid = items_subtotal (order_items s oid)"
    unfolding s' by (simp add: order_subtotal_def order_items_def)
  show ?thesis
    unfolding sub unfolding s' using f ty
    by (auto simp: findUnique_updateMany spec_DiscountAmount_def)
qed


lemma subtotal_of_created:
  assumes "\<forall>item \<in> set items. of_int \<lfloor>ireq_quantity item\<rfloor> = ireq_quantity item"
  shows "items_subtotal
           (map (\<lambda>(k, item). \<lparr>item_id = ident k, item_orderId = oid,
                                item_menuItemId = ireq_menuItemId item,
                                item_quantity = \<lfloor>ireq_quantity item\<rfloor>,
                                item_price = price (ireq_menuItemId item),
                                item_status = st item\<rparr>)
                (enumerate 0 items))
         = foldl (\<lambda>sum item. sum + price (ireq_menuItemId item) * ireq_quantity item) 0 items"
proof -
  let ?line = "\<lambda>item. price (ireq_menuItemId item) * of_int \<lfloor>ireq_quantity item\<rfloor>"
  have "items_subtotal
           (map (\<lambda>(k, item). \<lparr>item_id = ident k, item_orderId = oid,
                                item_menuItemId = ireq_menuItemId item,
                                item_quantity = \<lfloor>ireq_quantity item\<rfloor>,
                                item_price = price (ireq_menuItemId item),
                                item_status = st item\<rparr>)
                (enumerate 0 items))
          = sum_list (map (\<lambda>p. ?line (snd p)) (enumerate 0 items))"
    unfolding items_subtotal_sum_list
    by (simp add: comp_def case_prod_unfold)
  also have "map (\<lambda>p. ?line (snd p)) (enumerate 0 items) = map ?line (map snd (enumerate 0 items))"
    by (simp only: map_map comp_def)
  also have "map snd (enumerate 0 items) = items"
    by (rule map_snd_enumerate)
  also have "map ?line items
               = map (\<lambda>item. price (ireq_menuItemId item) * ireq_quantity item) items"
  proof (rule map_cong[OF refl])
    fix item
    assume "item \<in> set items"
    with assms have "of_int \<lfloor>ireq_quantity item\<rfloor> = ireq_quantity item"
      by blast
    then show "?line item = price (ireq_menuItemId item) * ireq_quantity item"
      by (simp only:)
  qed
  also have "sum_list (map (\<lambda>item. price (ireq_menuItemId item) * ireq_quantity item) items)
               = foldl (\<lambda>sum item. sum + price (ireq_menuItemId item) * ireq_quantity item) 0 items"
    by (simp add: foldl_add_sum_list)
  finally show ?thesis .
qed

text \<open>What a successful create request of the second version has written.\<close>

lemma createOrder_v2_InrD:
  assumes "createOrder_v2 fk cuid sess valid body s = (Inr (order, created), s')"
  shows "\<exists>price st.
           totalAmount order
             = foldl (\<lambda>sum item. sum + price (ireq_menuItemId item) * ireq_quantity item)
                 0 (oreq2_items body)
               + (case oreq2_surcharges body of None \<Rightarrow> 0 | Some x \<Rightarrow> x)
         \<and> order_id order = cuid 0
         \<and> created = map (\<lambda>(k, item).
                                \<lparr>item_id = cuid (Suc k), item_orderId = cuid 0,
                                 item_menuItemId = ireq_menuItemId item,
                                 item_quantity = \<lfloor>ireq_quantity item\<rfloor>,
                                 item_price = price (ireq_menuItemId item),
                                 item_status = st item\<rparr>)
                              (enumerate 0 (oreq2_items body))
         \<and> orders s' = orders s @ [order]
         \<and> orderItems s' = orderItems s @ created"
proof -
  let ?menuItem = "menuItemMap s (map ireq_menuItemId (oreq2_items body))"
  let ?price = "\<lambda>i. case ?menuItem i of None \<Rightarrow> 0 | Some m \<Rightarrow> menu_price m"
  let ?st = "\<lambda>item. if oreq2_orderType body = Some ''QUICK_SALE''
                         \<and> map_option printStation (?menuItem (ireq_menuItemId item))
                             = Some ''NO_PRINT''
                      then ITEM_SERVED else ITEM_PENDING"
  from assms have main:
    "totalAmount order
             = foldl (\<lambda>sum item. sum + ?price (ireq_menuItemId item) * ireq_quantity item)
                 0 (oreq2_items body)
               + (case oreq2_surcharges body of None \<Rightarrow> 0 | Some x \<Rightarrow> x)
         \<and> order_id order = cuid 0
         \<and> created = map (\<lambda>(k, item).
                                \<lparr>item_id = cuid (Suc k), item_orderId = cuid 0,
                                 item_menuItemId = ireq_menuItemId item,
                                 item_quantity = \<lfloor>ireq_quantity item\<rfloor>,
                                 item_price = ?price (ireq_menuItemId item),
                                 item_status = ?st item\<rparr>)
                              (enumerate 0 (oreq2_items body))
         \<and> orders s' = orders s @ [order]
         \<and> orderItems s' = orderItems s @ created"
    by (auto simp: createOrder_v2_def Let_def
             split: if_splits option.splits prod.splits bool.splits)
  show ?thesis
    by (rule exI[of _ ?price], rule exI[of _ ?st], rule main)
qed

lemma createOrder_v2_stored_total:
  assumes "createOrder_v2 fk cuid sess valid body s = (Inr (order, created), s')"
      and "\<forall>item \<in> set (oreq2_items body). of_int \<lfloor>ireq_quantity item\<rfloor> = ireq_quantity item"
      and "cuid 0 \<notin> order_id ` set (orders s)"
      and "cuid 0 \<notin> item_orderId ` set (orderItems s)"
  shows "stored_total s' (cuid 0)
           = Some (order_subtotal s' (cuid 0)
                   + (case oreq2_surcharges body of None \<Rightarrow> 0 | Some x \<Rightarrow> x))"
proof -
  from createOrder_v2_InrD[OF assms(1)] obtain price st where
    tot: "totalAmount order
             = foldl (\<lambda>sum item. sum + price (ireq_menuItemId item) * ireq_quantity item)
                 0 (oreq2_items body)
               + (case oreq2_surcharges body of None \<Rightarrow> 0 | Some x \<Rightarrow> x)" and
    oid: "order_id order = cuid 0" and
    cr: "created = map (\<lambda>(k, item).
                                \<lparr>item_id = cuid (Suc k), item_orderId = cuid 0,
                                 item_menuItemId = ireq_menuItemId item,
                                 item_quantity = \<lfloor>ireq_quantity item\<rfloor>,
                                 item_price = price (ireq_menuItemId item),
                                 item_status = st item\<rparr>)
                              (enumerate 0 (oreq2_items body))" and
    os: "orders s' = orders s @ [order]" and
    its: "orderItems s' = orderItems s @ created"
    by blast
  from cr have crid: "\<forall>i \<in> set created. item_orderId i = cuid 0"
    by auto
  have sub: "items_subtotal created
               = foldl (\<lambda>sum item. sum + price (ireq_menuItemId item) * ireq_quantity item)
                   0 (oreq2_items body)"
    unfolding cr using assms(2) by (rule subtotal_of_created)
  from assms(3) have "prisma_findUnique order_id (cuid 0) (orders s) = None"
    by (simp add: findUnique_None_iff)
  with oid have f: "prisma_findUnique order_id (cuid 0) (orders s') = Some order"
    by (simp add: os findUnique_append) (simp add: prisma_findUnique_def)
  from assms(4) have "filter (\<lambda>i. item_orderId i = cuid 0) (orderItems s) = []"
    by (force simp: filter_empty_conv)
  moreover from crid have "filter (\<lambda>i. item_orderId i = cuid 0) created = created"
    by (simp add: filter_id_conv)
  ultimately have "order_items s' (cuid 0) = created"
    by (simp add: order_items_def its)
  with f tot sub show ?thesis
    by (simp add: stored_total_def order_subtotal_def)
qed

text \<open>
  Claim C1, as the code has it. The stored total never includes tax. After a successful
  CreateOrder, AddItems, RemoveItem or RemoveDiscount, the total stored for the order is
  the subtotal of the items the order then has (price times quantity, summed), with no
  discount deducted; the version of CreateOrder that takes surcharges adds them to that
  subtotal. After a successful ApplyDiscount of type FIXED or PERCENTAGE it is the
  subtotal minus the discount amount, the discount being clamped to the subtotal. For
  CreateOrder the identifier drawn for the order is new, and in its second version the
  quantities are whole numbers, as the known schema requires.
\<close>

theorem stored_total_is_untaxed:
  "(createOrder fk cuid sess body s = (Inr (order, created), s1)
      \<and> cuid 0 \<notin> order_id ` set (orders s) \<and> cuid 0 \<notin> item_orderId ` set (orderItems s)
      \<longrightarrow> stored_total s1 (cuid 0) = Some (order_subtotal s1 (cuid 0)))
   \<and> (createOrder_v2 fk cuid sess valid body2 s = (Inr (order2, created2), s6)
      \<and> (\<forall>item \<in> set (oreq2_items body2).
             of_int \<lfloor>ireq_quantity item\<rfloor> = ireq_quantity item)
      \<and> cuid 0 \<notin> order_id ` set (orders s) \<and> cuid 0 \<notin> item_orderId ` set (orderItems s)
      \<longrightarrow> stored_total s6 (cuid 0)
            = Some (order_subtotal s6 (cuid 0)
                    + (case oreq2_surcharges body2 of None \<Rightarrow> 0 | Some x \<Rightarrow> x)))
   \<and> (addOrderItem fk iid sess oid ibody s = (Inr item, s2) \<and> oid \<in> order_id ` set (orders s)
      \<longrightarrow> stored_total s2 oid = Some (order_subtotal s2 oid))
   \<and> (removeOrderItem sess oid itemId s = (Inr u, s3) \<and> oid \<in> order_id ` set (orders s)
      \<longrightarrow> stored_total s3 oid = Some (order_subtotal s3 oid))
   \<and> (removeDiscount sess (Some oid) s = (Inr res, s4)
      \<longrightarrow> stored_total s4 oid = Some (order_subtotal s4 oid))
   \<and> (applyDiscount sess dbody s = (Inr res', s5) \<and> dreq_orderId dbody = Some oid
        \<and> (dreq_discountType dbody = Some ''FIXED''
             \<or> dreq_discountType dbody = Some ''PERCENTAGE'')
      \<longrightarrow> (\<exists>order'. prisma_findUnique order_id oid (orders s5) = Some order'
             \<and> totalAmount order'
                 = order_subtotal s5 oid - spec_DiscountAmount order' (order_subtotal s5 oid)))"
proof (intro conjI impI)
  assume "createOrder fk cuid sess body s = (Inr (order, created), s1)
      \<and> cuid 0 \<notin> order_id ` set (orders s) \<and> cuid 0 \<notin> item_orderId ` set (orderItems s)"
  then show "stored_total s1 (cuid 0) = Some (order_subtotal s1 (cuid 0))"
    using createOrder_stored_total by blast
next
  assume "createOrder_v2 fk cuid sess valid body2 s = (Inr (order2, created2), s6)
      \<and> (\<forall>item \<in> set (oreq2_items body2).
             of_int \<lfloor>ireq_quantity item\<rfloor> = ireq_quantity item)
      \<and> cuid 0 \<notin> order_id ` set (orders s) \<and> cuid 0 \<notin> item_orderId ` set (orderItems s)"
  then show "stored_total s6 (cuid 0)
            = Some (order_subtotal s6 (cuid 0)
                    + (case oreq2_surcharges body2 of None \<Rightarrow> 0 | Some x \<Rightarrow> x))"
    using createOrder_v2_stored_total by blast
next
  assume "addOrderItem fk iid sess oid ibody s = (Inr item, s2) \<and> oid \<in> order_id ` set (orders s)"
  then show "stored_total s2 oid = Some (order_subtotal s2 oid)"
    using addOrderItem_stored_total by blast
next
  assume "removeOrderItem sess oid itemId s = (Inr u, s3) \<and> oid \<in> order_id ` set (orders s)"
  then show "stored_total s3 oid = Some (order_subtotal s3 oid)"
    using removeOrderItem_stored_total by blast
next
  assume "removeDiscount sess (Some oid) s = (Inr res, s4)"
  then show "stored_total s4 oid = Some (order_subtotal s4 oid)"
    by (rule removeDiscount_stored_total)
next
  assume "applyDiscount sess dbody s = (Inr res', s5) \<and> dreq_orderId dbody = Some oid
        \<and> (dreq_discountType dbody = Some ''FIXED''
             \<or> dreq_discountType dbody = Some ''PERCENTAGE'')"
  then show "\<exists>order'. prisma_findUnique order_id oid (orders s5) = Some order'
             \<and> totalAmount order'
                 = order_subtotal s5 oid - spec_DiscountAmount order' (order_subtotal s5 oid)"
    using applyDiscount_stored_total by blast
qed

lemma pair_fst_snd: "fst p = a \<Longrightarrow> p = (a, snd p)"
  by auto

lemma example_discounted_db_eq:
  "example_discounted_db =
     example_order_db
       \<lparr>orders := [\<lparr>order_id = ''order-1'', order_tableId = Some ''table-1'',
                    order_status = CREATED, totalAmount = 45 / 2,
                    discountType = Some ''PERCENTAGE'', discountValue = Some 10,
                    discountReason = Some ''regular guest'',
                    discountAppliedBy = Some ''user-1'', createdById = ''user-1''\<rparr>]\<rparr>"
  unfolding example_discounted_db_def example_order_db_eq
  by (simp add: applyDiscount_def example_discount_request_def eval_defs)

lemma example_createOrder_fst:
  "fst (createOrder True example_cuid owner example_order_request example_db)
     = Inr (\<lparr>order_id = ''order-1'', order_tableId = Some ''table-1'',
              order_status = CREATED, totalAmount = 25, discountType = None,
              discountValue = None, discountReason = None, discountAppliedBy = None,
              createdById = ''user-1''\<rparr>,
            [\<lparr>item_id = ''oi-1'', item_orderId = ''order-1'',
              item_menuItemId = ''item-1'', item_quantity = 2, item_price = 10,
              item_status = ITEM_PENDING\<rparr>,
             \<lparr>item_id = ''oi-2'', item_orderId = ''order-1'',
              item_menuItemId = ''item-2'', item_quantity = 1, item_price = 5,
              item_status = ITEM_PENDING\<rparr>])"
  by (simp add: createOrder_def eval_defs)

lemma example_addOrderItem_fst:
  "fst (addOrderItem True ''oi-3'' owner ''order-1'' example_item_request example_order_db)
     = Inr \<lparr>item_id = ''oi-3'', item_orderId = ''order-1'', item_menuItemId = ''item-2'',
            item_quantity = 3, item_price = 5, item_status = ITEM_PENDING\<rparr>"
  by (simp add: example_order_db_eq addOrderItem_def example_item_request_def eval_defs)

lemma example_removeOrderItem_fst:
  "fst (removeOrderItem owner ''order-1'' ''oi-2'' example_order_db) = Inr ()"
  by (simp add: example_order_db_eq removeOrderItem_def eval_defs)

lemma example_removeDiscount_fst:
  "fst (removeDiscount owner (Some ''order-1'') example_discounted_db)
     = Inr (Some \<lparr>order_id = ''order-1'', order_tableId = Some ''table-1'',
                  order_status = CREATED, totalAmount = 25, discountType = None,
                  discountValue = None, discountReason = None, discountAppliedBy = None,
                  createdById = ''user-1''\<rparr>)"
  by (simp add: example_discounted_db_eq example_order_db_eq removeDiscount_def eval_defs)

lemma example_applyDiscount_fst:
  "fst (applyDiscount owner example_discount_request example_order_db)
     = Inr (Some \<lparr>order_id = ''order-1'', order_tableId = Some ''table-1'',
                    order_status = CREATED, totalAmount = 45 / 2,
                    discountType = Some ''PERCENTAGE'', discountValue = Some 10,
                    discountReason = Some ''regular guest'',
                    discountAppliedBy = Some ''user-1'', createdById = ''user-1''\<rparr>, 5 / 2)"
  by (simp add: example_order_db_eq applyDiscount_def example_discount_request_def eval_defs)

theorem stored_total_is_untaxed_witness:
  "stored_total example_order_db ''order-1'' = Some (order_subtotal example_order_db ''order-1'')
   \<and> order_subtotal example_order_db ''order-1'' = 25
   \<and> stored_total
        (snd (createOrder_v2 True example_cuid owner True example_counter_request
                example_counter_db)) ''order-1''
       = Some (order_subtotal
                 (snd (createOrder_v2 True example_cuid owner True example_counter_request
                         example_counter_db)) ''order-1'' + 1 / 4)
   \<and> stored_total
        (snd (addOrderItem True ''oi-3'' owner ''order-1'' example_item_request example_order_db))
        ''order-1''
       = Some (order_subtotal
                 (snd (addOrderItem True ''oi-3'' owner ''order-1'' example_item_request
                         example_order_db)) ''order-1'')
   \<and> stored_total (snd (removeOrderItem owner ''order-1'' ''oi-2'' example_order_db)) ''order-1''
       = Some (order_subtotal (snd (removeOrderItem owner ''order-1'' ''oi-2'' example_order_db))
                 ''order-1'')
   \<and> stored_total (snd (removeDiscount owner (Some ''order-1'') example_discounted_db)) ''order-1''
       = Some (order_subtotal (snd (removeDiscount owner (Some ''order-1'') example_discounted_db))
                 ''order-1'')
   \<and> (\<exists>order'. prisma_findUnique order_id ''order-1'' (orders example_discounted_db) = Some order'
         \<and> totalAmount order'
             = order_subtotal example_discounted_db ''order-1''
               - spec_DiscountAmount order' (order_subtotal example_discounted_db ''order-1''))"
proof -
  have fresh: "example_cuid 0 \<notin> order_id ` set (orders example_db)"
              "example_cuid 0 \<notin> item_orderId ` set (orderItems example_db)"
              "example_cuid 0 = ''order-1''"
    by (simp_all add: example_db_def)
  have ex: "''order-1'' \<in> order_id ` set (orders example_order_db)"
    by (simp add: example_order_db_eq)
  have c1: "createOrder True example_cuid owner example_order_request example_db
              = (fst (createOrder True example_cuid owner example_order_request example_db),
                 example_order_db)"
    by (simp add: example_order_db_def)
  have a: "stored_total example_order_db ''order-1''
             = Some (order_subtotal example_order_db ''order-1'')"
    using stored_total_is_untaxed
            [where fk = True and cuid = example_cuid and sess = owner
               and body = example_order_request and s = example_db and ?s1.0 = example_order_db,
               THEN conjunct1]
          c1 fresh
    unfolding example_createOrder_fst by fastforce
  have a': "order_subtotal example_order_db ''order-1'' = 25"
    by (simp add: example_order_db_eq order_subtotal_def eval_defs)
  have v2fst: "fst (createOrder_v2 True example_cuid owner True example_counter_request
                      example_counter_db)
                 = Inr (\<lparr>order_id = ''order-1'', order_tableId = None, order_status = READY,
                          totalAmount = 9 / 4, discountType = None, discountValue = None,
                          discountReason = None, discountAppliedBy = None,
                          createdById = ''user-1''\<rparr>,
                        [\<lparr>item_id = ''oi-1'', item_orderId = ''order-1'',
                          item_menuItemId = ''item-3'', item_quantity = 1, item_price = 2,
                          item_status = ITEM_SERVED\<rparr>])"
    by (simp add: createOrder_v2_def example_counter_db_def example_counter_request_def
                  menuItemMap_def eval_defs)
  have v2q: "\<forall>item \<in> set (oreq2_items example_counter_request).
               of_int \<lfloor>ireq_quantity item\<rfloor> = ireq_quantity item"
            "oreq2_surcharges example_counter_request = Some (1 / 4)"
            "example_cuid 0 \<notin> order_id ` set (orders example_counter_db)"
            "example_cuid 0 \<notin> item_orderId ` set (orderItems example_counter_db)"
    by (simp_all add: example_counter_request_def example_counter_db_def example_db_def)
  have v2: "stored_total
        (snd (createOrder_v2 True example_cuid owner True example_counter_request
                example_counter_db)) ''order-1''
       = Some (order_subtotal
                 (snd (createOrder_v2 True example_cuid owner True example_counter_request
                         example_counter_db)) ''order-1'' + 1 / 4)"
    using stored_total_is_untaxed
            [where fk = True and cuid = example_cuid and sess = owner and valid = True
               and ?body2.0 = example_counter_request and s = example_counter_db,
               THEN conjunct2, THEN conjunct1]
          pair_fst_snd[OF v2fst] v2q fresh(3)
    by fastforce
  have b: "stored_total
        (snd (addOrderItem True ''oi-3'' owner ''order-1'' example_item_request example_order_db))
        ''order-1''
       = Some (order_subtotal
                 (snd (addOrderItem True ''oi-3'' owner ''order-1'' example_item_request
                         example_order_db)) ''order-1'')"
    using stored_total_is_untaxed
            [where fk = True and iid = "''oi-3''" and sess = owner and oid = "''order-1''"
               and ibody = example_item_request and s = example_order_db,
               THEN conjunct2, THEN conjunct2, THEN conjunct1]
          pair_fst_snd[OF example_addOrderItem_fst] ex
    by blast
  have c: "stored_total (snd (removeOrderItem owner ''order-1'' ''oi-2'' example_order_db)) ''order-1''
       = Some (order_subtotal (snd (removeOrderItem owner ''order-1'' ''oi-2'' example_order_db))
                 ''order-1'')"
    using stored_total_is_untaxed
            [where sess = owner and oid = "''order-1''" and itemId = "''oi-2''"
               and s = example_order_db,
               THEN conjunct2, THEN conjunct2, THEN conjunct2, THEN conjunct1]
          pair_fst_snd[OF example_removeOrderItem_fst] ex
    by blast
  have d: "stored_total (snd (removeDiscount owner (Some ''order-1'') example_discounted_db)) ''order-1''
       = Some (order_subtotal (snd (removeDiscount owner (Some ''order-1'') example_discounted_db))
                 ''order-1'')"
    using stored_total_is_untaxed
            [where sess = owner and oid = "''order-1''" and s = example_discounted_db,
               THEN conjunct2, THEN conjunct2, THEN conjunct2, THEN conjunct2, THEN conjunct1]
          pair_fst_snd[OF example_removeDiscount_fst]
    by blast
  have e0: "applyDiscount owner example_discount_request example_order_db
              = (fst (applyDiscount owner example_discount_request example_order_db),
                 example_discounted_db)"
    by (simp add: example_discounted_db_def)
  have e1: "dreq_orderId example_discount_request = Some ''order-1''"
           "dreq_discountType example_discount_request = Some ''PERCENTAGE''"
    by (simp_all add: example_discount_request_def)
  have e: "\<exists>order'. prisma_findUnique order_id ''order-1'' (orders example_discounted_db) = Some order'
         \<and> totalAmount order'
             = order_subtotal example_discounted_db ''order-1''
               - spec_DiscountAmount order' (order_subtotal example_discounted_db ''order-1'')"
    using stored_total_is_untaxed
            [where sess = owner and oid = "''order-1''" and s = example_order_db
               and dbody = example_discount_request and ?s5.0 = example_discounted_db,
               THEN conjunct2, THEN conjunct2, THEN conjunct2, THEN conjunct2, THEN conjunct2]
          e0 e1
    unfolding example_applyDiscount_fst
    by blast
  from a a' v2 b c d e show ?thesis by blast
qed


text \<open>
  Claim C1, as stated, fails: for the order of the specification's scenario the stored
  total is 25.00, the subtotal, where subtotal minus discount plus tax is 28.25; after
  the discount of 10 percent the stored total is 22.50 where the formula gives 25.425.
\<close>

theorem stored_total_excludes_tax:
  "stored_total example_order_db ''order-1'' = Some 25
   \<and> map_option (\<lambda>order. spec_GrandTotal order (order_items example_order_db ''order-1''))
        (prisma_findUnique order_id ''order-1'' (orders example_order_db))
       = Some (113 / 4)
   \<and> stored_total example_discounted_db ''order-1'' = Some (45 / 2)
   \<and> map_option (\<lambda>order. spec_GrandTotal order (order_items example_discounted_db ''order-1''))
        (prisma_findUnique order_id ''order-1'' (orders example_discounted_db))
       = Some (1017 / 40)"
  by (simp add: example_discounted_db_eq example_order_db_eq stored_total_def
                spec_GrandTotal_def spec_Tax_def spec_DiscountAmount_def TAX_RATE_def eval_defs)

section \<open>Discount round trip\<close>





section \<open>Creating an order: validation and references\<close>

lemma createOrderSchema_bad_quantity:
  assumes "\<exists>item \<in> set (oreq_items body). \<not> positive_int (ireq_quantity item)"
  shows "createOrderSchema body = None"
  using assms by (auto simp: createOrderSchema_def list_all_iff)

lemma createOrder_missing_table:
  assumes "has_role sess [OWNER, SUPERVISOR, FLOOR_STAFF]"
      and "createOrderSchema body = Some (tableId, items)"
      and "tableId \<notin> table_id ` set (tables s)"
  shows "fst (createOrder fk cuid sess body s) = Inl Failed500
       \<and> (fk \<longrightarrow> snd (createOrder fk cuid sess body s) = s)"
proof (cases fk)
  case True
  with assms show ?thesis by (simp add: createOrder_def Let_def)
next
  case False
  from assms(3) have "prisma_update table_id tableId (\<lambda>r. r\<lparr>table_status := OCCUPIED\<rparr>) (tables s)
                        = None"
    by (simp add: prisma_update_None_iff)
  with False assms(1,2) show ?thesis by (simp add: createOrder_def Let_def)
qed

text \<open>
  Claim C8, as the code has it. A create request in which some quantity is not a
  positive integer is rejected by the schema (\<open>Invalid400\<close>) and changes nothing. The
  handler never looks the table up: for a request that passes the schema and names a
  table that does not exist, the response is the generic failure of the \<open>catch\<close> block
  (\<open>Failed500\<close>), not a not-found response, and where the relations are enforced as
  foreign keys nothing is written, so no order is created and no price is captured.
\<close>

theorem createOrder_rejections:
  assumes "has_role sess [OWNER, SUPERVISOR, FLOOR_STAFF]"
  shows "((\<exists>item \<in> set (oreq_items body). \<not> positive_int (ireq_quantity item)) \<longrightarrow>
            createOrder fk cuid sess body s = (Inl Invalid400, s))
       \<and> (createOrderSchema body \<noteq> None \<and> oreq_tableId body \<notin> table_id ` set (tables s) \<longrightarrow>
            fst (createOrder fk cuid sess body s) = Inl Failed500
          \<and> (fk \<longrightarrow> snd (createOrder fk cuid sess body s) = s))"
proof (intro conjI impI)
  assume "\<exists>item \<in> set (oreq_items body). \<not> positive_int (ireq_quantity item)"
  then have "createOrderSchema body = None"
    by (rule createOrderSchema_bad_quantity)
  with assms show "createOrder fk cuid sess body s = (Inl Invalid400, s)"
    by (simp add: createOrder_def)
next
  assume a: "createOrderSchema body \<noteq> None \<and> oreq_tableId body \<notin> table_id ` set (tables s)"
  then obtain tableId items where sc: "createOrderSchema body = Some (tableId, items)"
    by auto
  with a createOrderSchema_SomeD[OF sc] have "tableId \<notin> table_id ` set (tables s)"
    by simp
  from createOrder_missing_table[OF assms sc this]
  show "fst (createOrder fk cuid sess body s) = Inl Failed500"
    and "fk \<Longrightarrow> snd (createOrder fk cuid sess body s) = s"
    by simp_all
qed

theorem createOrder_rejections_witness:
  "has_role owner [OWNER, SUPERVISOR, FLOOR_STAFF]
   \<and> \<not> positive_int 0 \<and> \<not> positive_int (3 / 2) \<and> \<not> positive_int (- 1)
   \<and> createOrder True example_cuid owner
        \<lparr>oreq_tableId = ''table-1'',
         oreq_items = [\<lparr>ireq_menuItemId = ''item-1'', ireq_quantity = 3 / 2\<rparr>]\<rparr> example_db
       = (Inl Invalid400, example_db)
   \<and> ''table-9'' \<notin> table_id ` set (tables example_db)
   \<and> createOrder True example_cuid owner
        \<lparr>oreq_tableId = ''table-9'',
         oreq_items = [\<lparr>ireq_menuItemId = ''item-1'', ireq_quantity = 1\<rparr>]\<rparr> example_db
       = (Inl Failed500, example_db)"
proof -
  let ?bad = "\<lparr>oreq_tableId = ''table-1'',
              oreq_items = [\<lparr>ireq_menuItemId = ''item-1'', ireq_quantity = 3 / 2\<rparr>]\<rparr>"
  let ?missing = "\<lparr>oreq_tableId = ''table-9'',
                  oreq_items = [\<lparr>ireq_menuItemId = ''item-1'', ireq_quantity = 1\<rparr>]\<rparr>"
  have a: "has_role owner [OWNER, SUPERVISOR, FLOOR_STAFF]"
    by (simp add: eval_defs)
  have "\<lfloor>3 / 2 :: rat\<rfloor> = 1"
    by (rule floor_unique) simp_all
  then have q: "\<not> positive_int 0" "\<not> positive_int (3 / 2)" "\<not> positive_int (- 1)"
    by (simp_all add: positive_int_def)
  from q(2) have b: "\<exists>item \<in> set (oreq_items ?bad). \<not> positive_int (ireq_quantity item)"
    by simp
  have c: "createOrderSchema ?missing \<noteq> None
           \<and> oreq_tableId ?missing \<notin> table_id ` set (tables example_db)"
    by (simp add: createOrderSchema_def positive_int_def example_db_def)
  from createOrder_rejections
         [OF a, where body = ?bad and fk = True and cuid = example_cuid and s = example_db] b
  have d: "createOrder True example_cuid owner ?bad example_db = (Inl Invalid400, example_db)"
    by blast
  from createOrder_rejections
         [OF a, where body = ?missing and fk = True and cuid = example_cuid and s = example_db] c
  have "fst (createOrder True example_cuid owner ?missing example_db) = Inl Failed500"
    and "snd (createOrder True example_cuid owner ?missing example_db) = example_db"
    by blast+
  then have e: "createOrder True example_cuid owner ?missing example_db
                  = (Inl Failed500, example_db)"
    by (metis prod.collapse)
  from a q c d e show ?thesis by simp
qed

text \<open>
  Claim C8, as stated, fails: no request is answered with a not-found response. With
  foreign keys enforced, a request for a table that does not exist and a request for a
  menu item that does not exist both end in the generic failure. Without them, the
  request for the missing menu item succeeds and creates the order with the price 0.
\<close>

theorem createOrder_missing_reference_not_reported:
  "createOrder True example_cuid owner
     \<lparr>oreq_tableId = ''table-9'',
      oreq_items = [\<lparr>ireq_menuItemId = ''item-1'', ireq_quantity = 1\<rparr>]\<rparr> example_db
     = (Inl Failed500, example_db)
   \<and> createOrder True example_cuid owner
       \<lparr>oreq_tableId = ''table-1'',
        oreq_items = [\<lparr>ireq_menuItemId = ''item-9'', ireq_quantity = 1\<rparr>]\<rparr> example_db
       = (Inl Failed500, example_db)
   \<and> fst (createOrder False example_cuid owner
             \<lparr>oreq_tableId = ''table-1'',
              oreq_items = [\<lparr>ireq_menuItemId = ''item-9'', ireq_quantity = 1\<rparr>]\<rparr> example_db)
       = Inr (\<lparr>order_id = ''order-1'', order_tableId = Some ''table-1'',
                order_status = CREATED, totalAmount = 0, discountType = None,
                discountValue = None, discountReason = None, discountAppliedBy = None,
                createdById = ''user-1''\<rparr>,
              [\<lparr>item_id = ''oi-1'', item_orderId = ''order-1'', item_menuItemId = ''item-9'',
                item_quantity = 1, item_price = 0, item_status = ITEM_PENDING\<rparr>])"
  by (simp add: createOrder_def eval_defs)

end
